theory Spec2Isabelle
  imports Complex_Main "HOL-Library.AList"
begin

section \<open>JavaScript values\<close>

text \<open>
  The DB configuration module works on plain JavaScript objects. A number is a double:
  \<open>NaN\<close>, the two infinities, or a finite value (kept as the real it denotes).
\<close>

datatype jsnumber = NaN | PosInfinity | NegInfinity | Finite real

text \<open>
  The schemas of the module wrap the functions they validate: calling the wrapper runs the
  function and validates what it returns against a schema that is named lazily
  (\<^verbatim>\<open>z.lazy(() => referenceableFieldSchema)\<close>). \<open>returns\<close> names these schemas;
  a plain \<^verbatim>\<open>z.function()\<close> returns \<^verbatim>\<open>z.unknown()\<close>.
\<close>

datatype returns = ReturnsUnknown | ReturnsReferenceable | ReturnsReferenceableOrArray

text \<open>
  An object is the list of its own properties in enumeration order; reading a property
  takes the first entry of that key, so a later entry of the same key is never seen.
  A function of the configuration takes no argument (\<^verbatim>\<open>references: () => field\<close>) and is
  represented by the value it returns; \<open>Wrapped r f\<close> is the function \<open>f\<close> wrapped by a
  schema whose return type is \<open>r\<close>. A \<^verbatim>\<open>Date\<close> object carries its time value, \<open>None\<close>
  when it is an invalid date.
\<close>

datatype jsval =
    Undefined
  | Null
  | Bool bool
  | Num jsnumber
  | Str string
  | DateObj "int option"
  | Obj "(string \<times> jsval) list"
  | Arr "jsval list"
  | Fun jsval
  | Wrapped returns jsval

type_synonym jsobj = "(string \<times> jsval) list"

definition keys :: "jsobj \<Rightarrow> string list" where
  "keys obj = map fst obj"

definition has :: "jsobj \<Rightarrow> string \<Rightarrow> bool" where
  \<comment> \<open>\<^verbatim>\<open>key in obj\<close>\<close>
  "has obj k = (k \<in> fst ` set obj)"

definition get_prop :: "jsobj \<Rightarrow> string \<Rightarrow> jsval" where
  \<comment> \<open>\<^verbatim>\<open>obj[key]\<close>: \<^verbatim>\<open>undefined\<close> when the object has no such property\<close>
  "get_prop obj k = (case map_of obj k of Some v \<Rightarrow> v | None \<Rightarrow> Undefined)"

definition assign :: "string \<Rightarrow> jsval \<Rightarrow> jsobj \<Rightarrow> jsobj" where
  \<comment> \<open>\<^verbatim>\<open>obj[key] = v\<close>: an existing property keeps its place, a new one comes last\<close>
  "assign k v obj = AList.update k v obj"

fun copy_props :: "jsobj \<Rightarrow> string list \<Rightarrow> jsobj \<Rightarrow> jsobj" where
  "copy_props src [] tgt = tgt"
| "copy_props src (k # ks) tgt = copy_props src ks (assign k (get_prop src k) tgt)"

definition spread :: "jsobj \<Rightarrow> jsobj \<Rightarrow> jsobj" where
  \<comment> \<open>\<^verbatim>\<open>{ <tgt so far>, ...src }\<close>: every own property of \<open>src\<close> is copied onto \<open>tgt\<close>\<close>
  "spread src tgt = copy_props src (keys src) tgt"


section \<open>The declarative configuration API of \<^verbatim>\<open>packages/db/src/config.ts\<close>\<close>

definition config_defineCollection :: "jsobj \<Rightarrow> jsobj" where
  \<comment> \<open>\<^verbatim>\<open>return { ...userConfig, writable: false }\<close>\<close>
  "config_defineCollection userConfig = assign ''writable'' (Bool False) (spread userConfig [])"

definition config_defineWritableCollection :: "jsobj \<Rightarrow> jsobj" where
  \<comment> \<open>\<^verbatim>\<open>return { ...userConfig, writable: true }\<close>\<close>
  "config_defineWritableCollection userConfig =
     assign ''writable'' (Bool True) (spread userConfig [])"

definition baseDefaults :: jsobj where
  "baseDefaults =
     [(''optional'', Bool False), (''unique'', Bool False),
      (''label'', Undefined), (''default'', Undefined)]"

definition field_number :: "jsobj \<Rightarrow> jsobj" where
  \<comment> \<open>\<^verbatim>\<open>{ type: 'number', ...baseDefaults, ...opts }\<close>\<close>
  "field_number opts = spread opts (spread baseDefaults [(''type'', Str ''number'')])"

definition field_boolean :: "jsobj \<Rightarrow> jsobj" where
  "field_boolean opts = spread opts (spread baseDefaults [(''type'', Str ''boolean'')])"

definition field_text :: "jsobj \<Rightarrow> jsobj" where
  \<comment> \<open>\<^verbatim>\<open>{ type: 'text', multiline: false, ...baseDefaults, ...opts }\<close>\<close>
  "field_text opts =
     spread opts (spread baseDefaults [(''type'', Str ''text''), (''multiline'', Bool False)])"

definition field_date :: "jsobj \<Rightarrow> jsobj" where
  "field_date opts = spread opts (spread baseDefaults [(''type'', Str ''date'')])"

definition field_json :: "jsobj \<Rightarrow> jsobj" where
  "field_json opts = spread opts (spread baseDefaults [(''type'', Str ''json'')])"

text \<open>The object \<^verbatim>\<open>field\<close> itself: its constructors under their names.\<close>

definition config_field :: "(string \<times> (jsobj \<Rightarrow> jsobj)) list" where
  "config_field =
     [(''number'', field_number), (''boolean'', field_boolean), (''text'', field_text),
      (''date'', field_date), (''json'', field_json)]"

section \<open>Collections with deferred table binding\<close>

text \<open>
  \<^verbatim>\<open>baseDefineCollection\<close> writes into the field objects it is given, and the closure
  \<^verbatim>\<open>_setMeta\<close> writes into them again later. The field objects therefore live in a store,
  and a fields record holds their addresses; two keys may hold the same object.
  The private \<^verbatim>\<open>meta\<close> object of a collection is a cell of the store too (\<open>None\<close> is
  \<^verbatim>\<open>null\<close>). The table type of the ORM is a type parameter and its \<^verbatim>\<open>getTableName\<close> a
  function parameter.
\<close>

type_synonym addr = nat

record 'tbl heap =
  objs :: "addr \<Rightarrow> jsobj"
  metas :: "addr \<Rightarrow> 'tbl option"
  next_meta :: addr

text \<open>
  The property \<^verbatim>\<open>fields\<close> of a collection configuration is the record field \<open>cfields\<close>
  (the record package keeps the name \<open>fields\<close> for itself). An absent \<^verbatim>\<open>indexes\<close> or
  \<^verbatim>\<open>foreignKeys\<close> is \<open>Undefined\<close>.
\<close>

record CollectionConfig =
  cfields :: "(string \<times> addr) list"
  indexes :: jsval
  foreignKeys :: jsval

record ResolvedCollectionConfig = CollectionConfig +
  writable :: bool
  meta :: addr

definition set_prop :: "addr \<Rightarrow> string \<Rightarrow> jsval \<Rightarrow> 'tbl heap \<Rightarrow> 'tbl heap" where
  \<comment> \<open>\<^verbatim>\<open>field[key] = v\<close> on the object at an address\<close>
  "set_prop a k v h = h\<lparr>objs := (objs h)(a := assign k v (objs h a))\<rparr>"

fun setNames :: "(string \<times> addr) list \<Rightarrow> string list \<Rightarrow> 'tbl heap \<Rightarrow> 'tbl heap" where
  \<comment> \<open>\<^verbatim>\<open>for (const fieldName in fields) { fields[fieldName].name = fieldName }\<close>\<close>
  "setNames fs [] h = h"
| "setNames fs (fieldName # rest) h =
     (case map_of fs fieldName of
        Some field \<Rightarrow> setNames fs rest (set_prop field ''name'' (Str fieldName) h)
      | None \<Rightarrow> setNames fs rest h)"

fun setCollections ::
  "(string \<times> addr) list \<Rightarrow> string list \<Rightarrow> string \<Rightarrow> 'tbl heap \<Rightarrow> 'tbl heap" where
  \<comment> \<open>\<^verbatim>\<open>for (const fieldName in fields) { fields[fieldName].collection = tableName }\<close>\<close>
  "setCollections fs [] tableName h = h"
| "setCollections fs (fieldName # rest) tableName h =
     (case map_of fs fieldName of
        Some field \<Rightarrow>
          setCollections fs rest tableName (set_prop field ''collection'' (Str tableName) h)
      | None \<Rightarrow> setCollections fs rest tableName h)"

definition field_keys :: "(string \<times> addr) list \<Rightarrow> string list" where
  "field_keys fs = map fst fs"

text \<open>
  The object that \<^verbatim>\<open>baseDefineCollection\<close> returns is the spread of the user
  configuration, the tag \<^verbatim>\<open>writable\<close>, and the getter \<^verbatim>\<open>table\<close> and the closure
  \<^verbatim>\<open>_setMeta\<close>, which share the fresh object \<^verbatim>\<open>meta\<close>: the result holds its address.
\<close>

definition baseDefineCollection ::
  "CollectionConfig \<Rightarrow> bool \<Rightarrow> 'tbl heap \<Rightarrow> ResolvedCollectionConfig \<times> 'tbl heap" where
  "baseDefineCollection userConfig w h =
     (let h1 = setNames (cfields userConfig) (field_keys (cfields userConfig)) h;
          m = next_meta h1;
          h2 = h1\<lparr>metas := (metas h1)(m := None), next_meta := Suc m\<rparr>
      in (\<lparr>cfields = cfields userConfig, indexes = indexes userConfig,
            foreignKeys = foreignKeys userConfig, writable = w, meta = m\<rparr>, h2))"

definition table :: "ResolvedCollectionConfig \<Rightarrow> 'tbl heap \<Rightarrow> 'tbl option" where
  \<comment> \<open>the getter \<^verbatim>\<open>get table() { return meta.table }\<close>\<close>
  "table c h = metas h (meta c)"

definition setMeta ::
  "('tbl \<Rightarrow> string) \<Rightarrow> ResolvedCollectionConfig \<Rightarrow> 'tbl \<Rightarrow> 'tbl heap \<Rightarrow> 'tbl heap" where
  \<comment> \<open>\<^verbatim>\<open>_setMeta({ table })\<close>: \<^verbatim>\<open>Object.assign(meta, values)\<close>, then the loop over the fields\<close>
  "setMeta getTableName c tbl h =
     (let h1 = h\<lparr>metas := (metas h)(meta c := Some tbl)\<rparr>;
          tableName = getTableName tbl
      in setCollections (cfields c) (field_keys (cfields c)) tableName h1)"

definition defineCollection ::
  "CollectionConfig \<Rightarrow> 'tbl heap \<Rightarrow> ResolvedCollectionConfig \<times> 'tbl heap" where
  "defineCollection userConfig h = baseDefineCollection userConfig False h"

definition defineWritableCollection ::
  "CollectionConfig \<Rightarrow> 'tbl heap \<Rightarrow> ResolvedCollectionConfig \<times> 'tbl heap" where
  "defineWritableCollection userConfig h = baseDefineCollection userConfig True h"

section \<open>The validation library\<close>

text \<open>
  The schemas are values of the runtime validation library (zod). Each combinator the
  module uses is given as the parser it denotes: the input value to an error or the output
  value. A failed parse reports the first issue found. The other errors are those
  JavaScript itself raises.
\<close>

datatype ZodIssueCode = invalid_type | invalid_literal | invalid_union | invalid_date

datatype error = ZodError ZodIssueCode | TypeError | RangeError

type_synonym ZodType = "jsval \<Rightarrow> error + jsval"

type_synonym ZodRawShape = "(string \<times> ZodType) list"

definition z_string :: ZodType where
  "z_string v = (case v of Str s \<Rightarrow> Inr v | _ \<Rightarrow> Inl (ZodError invalid_type))"

definition z_boolean :: ZodType where
  "z_boolean v = (case v of Bool b \<Rightarrow> Inr v | _ \<Rightarrow> Inl (ZodError invalid_type))"

definition z_number :: ZodType where
  \<comment> \<open>\<^verbatim>\<open>NaN\<close> is not a number for the library\<close>
  "z_number v =
     (case v of Num n \<Rightarrow> (if n = NaN then Inl (ZodError invalid_type) else Inr v)
      | _ \<Rightarrow> Inl (ZodError invalid_type))"

definition z_literal :: "jsval \<Rightarrow> ZodType" where
  "z_literal lit v = (if v = lit then Inr v else Inl (ZodError invalid_literal))"

definition z_unknown :: ZodType where
  "z_unknown v = Inr v"

definition z_any :: ZodType where
  "z_any v = Inr v"

definition z_optional :: "ZodType \<Rightarrow> ZodType" where
  "z_optional s v = (if v = Undefined then Inr Undefined else s v)"

definition is_function :: "jsval \<Rightarrow> bool" where
  \<comment> \<open>\<^verbatim>\<open>typeof v === 'function'\<close>\<close>
  "is_function v = (case v of Fun _ \<Rightarrow> True | Wrapped _ _ \<Rightarrow> True | _ \<Rightarrow> False)"

definition z_function :: "returns \<Rightarrow> ZodType" where
  \<comment> \<open>a function is accepted and wrapped; what it returns is validated when it is called\<close>
  "z_function r v = (if is_function v then Inr (Wrapped r v) else Inl (ZodError invalid_type))"

fun z_union :: "ZodType list \<Rightarrow> ZodType" where
  \<comment> \<open>the first option that accepts the value gives the output\<close>
  "z_union [] v = Inl (ZodError invalid_union)"
| "z_union (s # ss) v = (case s v of Inr out \<Rightarrow> Inr out | Inl _ \<Rightarrow> z_union ss v)"

fun parse_items :: "ZodType \<Rightarrow> jsval list \<Rightarrow> error + jsval list" where
  "parse_items s [] = Inr []"
| "parse_items s (x # xs) =
     (case s x of Inl e \<Rightarrow> Inl e
      | Inr y \<Rightarrow> (case parse_items s xs of Inl e \<Rightarrow> Inl e | Inr ys \<Rightarrow> Inr (y # ys)))"

definition z_array :: "ZodType \<Rightarrow> ZodType" where
  "z_array s v =
     (case v of
        Arr xs \<Rightarrow> (case parse_items s xs of Inl e \<Rightarrow> Inl e | Inr ys \<Rightarrow> Inr (Arr ys))
      | _ \<Rightarrow> Inl (ZodError invalid_type))"

fun parse_entries :: "ZodType \<Rightarrow> jsobj \<Rightarrow> string list \<Rightarrow> error + jsobj" where
  \<comment> \<open>\<^verbatim>\<open>for (const key in data)\<close>: the value at each key is parsed\<close>
  "parse_entries s data [] = Inr []"
| "parse_entries s data (k # ks) =
     (case s (get_prop data k) of Inl e \<Rightarrow> Inl e
      | Inr y \<Rightarrow>
          (case parse_entries s data ks of Inl e \<Rightarrow> Inl e | Inr out \<Rightarrow> Inr ((k, y) # out)))"

definition z_record :: "ZodType \<Rightarrow> ZodType" where
  "z_record s v =
     (case v of
        Obj data \<Rightarrow>
          (case parse_entries s data (keys data) of Inl e \<Rightarrow> Inl e | Inr out \<Rightarrow> Inr (Obj out))
      | _ \<Rightarrow> Inl (ZodError invalid_type))"

fun parse_shape :: "ZodRawShape \<Rightarrow> jsobj \<Rightarrow> error + jsobj" where
  \<comment> \<open>the keys of the shape, in its order; a key the shape does not name is stripped, and a
      key whose output is \<^verbatim>\<open>undefined\<close> is kept only when the input has it\<close>
  "parse_shape [] data = Inr []"
| "parse_shape ((k, s) # shape) data =
     (case s (get_prop data k) of Inl e \<Rightarrow> Inl e
      | Inr y \<Rightarrow>
          (case parse_shape shape data of Inl e \<Rightarrow> Inl e
           | Inr out \<Rightarrow> Inr (if y \<noteq> Undefined \<or> has data k then (k, y) # out else out)))"

definition z_object :: "ZodRawShape \<Rightarrow> ZodType" where
  "z_object shape v =
     (case v of Obj data \<Rightarrow> (case parse_shape shape data of Inl e \<Rightarrow> Inl e | Inr out \<Rightarrow> Inr (Obj out))
      | _ \<Rightarrow> Inl (ZodError invalid_type))"

definition extend :: "ZodRawShape \<Rightarrow> ZodRawShape \<Rightarrow> ZodRawShape" where
  \<comment> \<open>\<^verbatim>\<open>base.extend(augmentation)\<close>: the shape \<^verbatim>\<open>{ ...base, ...augmentation }\<close>\<close>
  "extend base augmentation = fold (\<lambda>(k, s). AList.update k s) augmentation base"

definition z_coerce_date :: "(jsval \<Rightarrow> int option) \<Rightarrow> ZodType" where
  \<comment> \<open>\<^verbatim>\<open>z.coerce.date()\<close>: \<^verbatim>\<open>new Date(input)\<close>, refused when it is an invalid date. The
      constructor of the language is the parameter: the time value of \<^verbatim>\<open>new Date(v)\<close>,
      \<open>None\<close> for an invalid date.\<close>
  "z_coerce_date newDate v =
     (case newDate v of None \<Rightarrow> Inl (ZodError invalid_date) | Some t \<Rightarrow> Inr (DateObj (Some t)))"

definition z_transform :: "ZodType \<Rightarrow> (jsval \<Rightarrow> error + jsval) \<Rightarrow> ZodType" where
  \<comment> \<open>the transformation runs only on a value the schema accepted\<close>
  "z_transform s f v = (case s v of Inl e \<Rightarrow> Inl e | Inr x \<Rightarrow> f x)"

definition toISOString :: "(int \<Rightarrow> string) \<Rightarrow> jsval \<Rightarrow> error + jsval" where
  \<comment> \<open>\<^verbatim>\<open>(d) => d.toISOString()\<close>; the formatting of a time value is the parameter\<close>
  "toISOString isoString d =
     (case d of DateObj (Some t) \<Rightarrow> Inr (Str (isoString t))
      | DateObj None \<Rightarrow> Inl RangeError
      | _ \<Rightarrow> Inl TypeError)"

section \<open>The field and collection schemas\<close>

definition baseFieldSchema :: ZodRawShape where
  "baseFieldSchema =
     [(''label'', z_optional z_string),
      (''optional'', z_optional z_boolean),
      (''unique'', z_optional z_boolean),
      (''name'', z_optional z_string),
      (''collection'', z_optional z_string)]"

definition booleanFieldSchema :: ZodRawShape where
  "booleanFieldSchema =
     extend baseFieldSchema
       [(''type'', z_literal (Str ''boolean'')),
        (''default'', z_optional z_boolean)]"

definition numberFieldSchema :: ZodRawShape where
  "numberFieldSchema =
     extend baseFieldSchema
       [(''type'', z_literal (Str ''number'')),
        (''default'', z_optional z_number),
        (''references'', z_optional (z_function ReturnsReferenceable)),
        (''primaryKey'', z_optional z_boolean)]"

definition textFieldSchema :: ZodRawShape where
  "textFieldSchema =
     extend baseFieldSchema
       [(''type'', z_literal (Str ''text'')),
        (''multiline'', z_optional z_boolean),
        (''default'', z_optional z_string),
        (''references'', z_optional (z_function ReturnsReferenceable)),
        (''primaryKey'', z_optional z_boolean)]"

definition dateFieldSchema :: "(jsval \<Rightarrow> int option) \<Rightarrow> (int \<Rightarrow> string) \<Rightarrow> ZodRawShape" where
  "dateFieldSchema newDate isoString =
     extend baseFieldSchema
       [(''type'', z_literal (Str ''date'')),
        (''default'',
           z_optional
             (z_union
                [z_literal (Str ''now''),
                 z_transform (z_coerce_date newDate) (toISOString isoString)]))]"

definition jsonFieldSchema :: ZodRawShape where
  "jsonFieldSchema =
     extend baseFieldSchema
       [(''type'', z_literal (Str ''json'')),
        (''default'', z_optional z_unknown)]"

definition fieldSchema :: "(jsval \<Rightarrow> int option) \<Rightarrow> (int \<Rightarrow> string) \<Rightarrow> ZodType" where
  "fieldSchema newDate isoString =
     z_union
       [z_object booleanFieldSchema,
        z_object numberFieldSchema,
        z_object textFieldSchema,
        z_object (dateFieldSchema newDate isoString),
        z_object jsonFieldSchema]"

text \<open>The type \<^verbatim>\<open>FieldType\<close>: the \<^verbatim>\<open>type\<close> tags of the five field schemas.\<close>

definition FieldType :: "string list" where
  "FieldType = [''boolean'', ''number'', ''text'', ''date'', ''json'']"

definition referenceableFieldSchema :: ZodType where
  "referenceableFieldSchema = z_union [z_object textFieldSchema, z_object numberFieldSchema]"

definition fieldsSchema :: "(jsval \<Rightarrow> int option) \<Rightarrow> (int \<Rightarrow> string) \<Rightarrow> ZodType" where
  "fieldsSchema newDate isoString = z_record (fieldSchema newDate isoString)"

definition indexSchema :: ZodRawShape where
  "indexSchema =
     [(''on'', z_union [z_string, z_array z_string]),
      (''unique'', z_optional z_boolean)]"

definition foreignKeysSchema :: ZodRawShape where
  "foreignKeysSchema =
     [(''fields'', z_union [z_string, z_array z_string]),
      (''references'', z_function ReturnsReferenceableOrArray)]"

definition baseCollectionSchema ::
  "(jsval \<Rightarrow> int option) \<Rightarrow> (int \<Rightarrow> string) \<Rightarrow> ZodRawShape" where
  "baseCollectionSchema newDate isoString =
     [(''fields'', fieldsSchema newDate isoString),
      (''indexes'', z_optional (z_record (z_object indexSchema))),
      (''foreignKeys'', z_optional (z_array (z_object foreignKeysSchema))),
      (''table'', z_any),
      (''_setMeta'', z_optional (z_function ReturnsUnknown))]"

definition readableCollectionSchema ::
  "(jsval \<Rightarrow> int option) \<Rightarrow> (int \<Rightarrow> string) \<Rightarrow> ZodRawShape" where
  "readableCollectionSchema newDate isoString =
     extend (baseCollectionSchema newDate isoString) [(''writable'', z_literal (Bool False))]"

definition writableCollectionSchema ::
  "(jsval \<Rightarrow> int option) \<Rightarrow> (int \<Rightarrow> string) \<Rightarrow> ZodRawShape" where
  "writableCollectionSchema newDate isoString =
     extend (baseCollectionSchema newDate isoString) [(''writable'', z_literal (Bool True))]"

definition collectionSchema :: "(jsval \<Rightarrow> int option) \<Rightarrow> (int \<Rightarrow> string) \<Rightarrow> ZodType" where
  "collectionSchema newDate isoString =
     z_union
       [z_object (readableCollectionSchema newDate isoString),
        z_object (writableCollectionSchema newDate isoString)]"



subsection \<open>Calling a validated function\<close>

definition returns_schema :: "returns \<Rightarrow> ZodType" where
  "returns_schema r =
     (case r of
        ReturnsUnknown \<Rightarrow> z_unknown
      | ReturnsReferenceable \<Rightarrow> referenceableFieldSchema
      | ReturnsReferenceableOrArray \<Rightarrow>
          z_union [referenceableFieldSchema, z_array referenceableFieldSchema])"

fun call :: "jsval \<Rightarrow> error + jsval" where
  \<comment> \<open>\<^verbatim>\<open>f()\<close>: a wrapper validates what the function it wraps returns\<close>
  "call (Fun r) = Inr r"
| "call (Wrapped t f) = (case call f of Inl e \<Rightarrow> Inl e | Inr r \<Rightarrow> returns_schema t r)"
| "call _ = Inl TypeError"

section \<open>Concrete configurations\<close>

text \<open>
  A store in which every field object is a number field without a name, and in which no
  collection has been defined yet. Its tables are identified by their names.
\<close>

definition example_heap :: "string heap" where
  "example_heap =
     \<lparr>objs = (\<lambda>a. [(''type'', Str ''number'')]), metas = (\<lambda>m. None), next_meta = 0\<rparr>"

text \<open>\<^verbatim>\<open>const f = field.number(); defineCollection({ fields: { a: f, b: f } })\<close>\<close>

definition shared_field_config :: CollectionConfig where
  "shared_field_config =
     \<lparr>cfields = [(''a'', 0), (''b'', 0)], indexes = Undefined, foreignKeys = Undefined\<rparr>"

text \<open>\<^verbatim>\<open>defineCollection({ fields: { id: field.number() } })\<close>\<close>

definition one_field_config :: CollectionConfig where
  "one_field_config = \<lparr>cfields = [(''id'', 0)], indexes = Undefined, foreignKeys = Undefined\<rparr>"

text \<open>
  A store whose field objects were built with a \<^verbatim>\<open>collection\<close> option:
  \<^verbatim>\<open>field.text({ collection: 'users' })\<close>.
\<close>

definition preset_collection_heap :: "string heap" where
  "preset_collection_heap =
     \<lparr>objs = (\<lambda>a. [(''type'', Str ''text''), (''collection'', Str ''users'')]),
      metas = (\<lambda>m. None), next_meta = 0\<rparr>"

text \<open>
  A stand-in for the \<^verbatim>\<open>Date\<close> constructor of the language that knows one date only,
  the number \<^verbatim>\<open>0\<close> (the epoch), and the ISO string of the epoch.
\<close>

definition epoch_only :: "jsval \<Rightarrow> int option" where
  "epoch_only v = (if v = Num (Finite 0) then Some 0 else None)"

definition epoch_iso :: "int \<Rightarrow> string" where
  "epoch_iso t = ''1970-01-01T00:00:00.000Z''"

text \<open>
  A text field that references a number field, and a boolean field written with a
  \<^verbatim>\<open>references\<close> property.
\<close>

definition text_referencing_number :: jsobj where
  "text_referencing_number =
     [(''type'', Str ''text''), (''references'', Fun (Obj [(''type'', Str ''number'')]))]"

definition boolean_with_references :: jsobj where
  "boolean_with_references =
     [(''type'', Str ''boolean''), (''references'', Fun (Obj [(''type'', Str ''number'')]))]"




section \<open>Auxiliary notions\<close>


section \<open>Properties of objects and of the store\<close>

lemma get_prop_assign: "get_prop (assign k v obj) k' = (if k' = k then v else get_prop obj k')"
  by (simp add: get_prop_def assign_def update_conv')

lemma has_assign: "has (assign k v obj) k' = (k' = k \<or> has obj k')"
  by (auto simp add: has_def assign_def dom_update)

lemma get_prop_copy_props:
  "get_prop (copy_props src ks tgt) k = (if k \<in> set ks then get_prop src k else get_prop tgt k)"
  by (induction ks arbitrary: tgt) (auto simp: get_prop_assign)

lemma has_copy_props: "has (copy_props src ks tgt) k = (k \<in> set ks \<or> has tgt k)"
  by (induction ks arbitrary: tgt) (auto simp: has_assign)

lemma get_prop_spread:
  "get_prop (spread src tgt) k = (if has src k then get_prop src k else get_prop tgt k)"
  by (simp add: spread_def get_prop_copy_props keys_def has_def)

lemma has_spread: "has (spread src tgt) k = (has src k \<or> has tgt k)"
proof -
  have "has src k = (k \<in> set (keys src))" by (simp add: has_def keys_def)
  then show ?thesis by (simp add: spread_def has_copy_props)
qed

lemma get_prop_absent: "\<not> has obj k \<Longrightarrow> get_prop obj k = Undefined"
proof -
  assume "\<not> has obj k"
  then have "map_of obj k = None" by (simp add: has_def map_of_eq_None_iff)
  then show ?thesis by (simp add: get_prop_def)
qed

lemma get_prop_Cons:
  "get_prop ((k, v) # obj) k' = (if k' = k then v else get_prop obj k')"
  by (simp add: get_prop_def)

lemma get_prop_Nil: "get_prop [] k = Undefined"
  by (simp add: get_prop_def)

lemma has_Cons: "has ((k, v) # obj) k' = (k' = k \<or> has obj k')"
  by (auto simp: has_def)

lemma has_Nil: "has [] k = False"
  by (simp add: has_def)

subsection \<open>The field constructors\<close>

lemma field_ctor_prop:
  "get_prop (spread opts (spread baseDefaults init)) k =
     (if has opts k then get_prop opts k
      else if has baseDefaults k then get_prop baseDefaults k else get_prop init k)"
  by (simp add: get_prop_spread)

lemma has_baseDefaults:
  "has baseDefaults k = (k = ''optional'' \<or> k = ''unique'' \<or> k = ''label'' \<or> k = ''default'')"
  by (auto simp: has_def baseDefaults_def)

lemma field_ctor_type:
  "\<not> has opts ''type'' \<Longrightarrow>
   get_prop (spread opts (spread baseDefaults ((''type'', t) # init))) ''type'' = t"
  by (simp add: field_ctor_prop has_baseDefaults get_prop_Cons)

lemma field_ctor_defaults:
  "(\<not> has opts ''optional'' \<longrightarrow>
      get_prop (spread opts (spread baseDefaults init)) ''optional'' = Bool False) \<and>
   (\<not> has opts ''unique'' \<longrightarrow>
      get_prop (spread opts (spread baseDefaults init)) ''unique'' = Bool False) \<and>
   (\<not> has opts ''label'' \<longrightarrow>
      get_prop (spread opts (spread baseDefaults init)) ''label'' = Undefined) \<and>
   (\<not> has opts ''default'' \<longrightarrow>
      get_prop (spread opts (spread baseDefaults init)) ''default'' = Undefined)"
  by (simp add: field_ctor_prop has_baseDefaults) (simp add: get_prop_Cons baseDefaults_def)

lemma field_ctor_override:
  "has opts k \<Longrightarrow> get_prop (spread opts (spread baseDefaults init)) k = get_prop opts k"
  by (simp add: field_ctor_prop)

subsection \<open>The loops over the fields of a collection\<close>

lemma setNames_metas: "metas (setNames fs ks h) = metas h \<and> next_meta (setNames fs ks h) = next_meta h"
  by (induction ks arbitrary: h) (auto simp: set_prop_def split: option.splits)

lemma setNames_other:
  "p \<noteq> ''name'' \<Longrightarrow> get_prop (objs (setNames fs ks h) a) p = get_prop (objs h a) p"
  by (induction ks arbitrary: h) (auto simp: set_prop_def get_prop_assign split: option.splits)

lemma setNames_name:
  "get_prop (objs (setNames fs ks h) a) ''name'' =
     (if filter (\<lambda>k. map_of fs k = Some a) ks = [] then get_prop (objs h a) ''name''
      else Str (last (filter (\<lambda>k. map_of fs k = Some a) ks)))"
proof (induction ks arbitrary: h)
  case Nil
  show ?case by simp
next
  case (Cons k ks)
  show ?case
    by (cases "map_of fs k") (auto simp: Cons.IH set_prop_def get_prop_assign)
qed

lemma setCollections_metas:
  "metas (setCollections fs ks t h) = metas h \<and> next_meta (setCollections fs ks t h) = next_meta h"
  by (induction ks arbitrary: h) (auto simp: set_prop_def split: option.splits)

lemma setCollections_other:
  "p \<noteq> ''collection'' \<Longrightarrow> get_prop (objs (setCollections fs ks t h) a) p = get_prop (objs h a) p"
  by (induction ks arbitrary: h) (auto simp: set_prop_def get_prop_assign split: option.splits)

lemma setCollections_has:
  "p \<noteq> ''collection'' \<Longrightarrow> has (objs (setCollections fs ks t h) a) p = has (objs h a) p"
  by (induction ks arbitrary: h) (auto simp: set_prop_def has_assign split: option.splits)

lemma setCollections_untouched:
  "\<forall>k\<in>set ks. map_of fs k \<noteq> Some a \<Longrightarrow> objs (setCollections fs ks t h) a = objs h a"
  by (induction ks arbitrary: h) (auto simp: set_prop_def split: option.splits)

lemma setNames_has:
  "p \<noteq> ''name'' \<Longrightarrow> has (objs (setNames fs ks h) a) p = has (objs h a) p"
  by (induction ks arbitrary: h) (auto simp: set_prop_def has_assign split: option.splits)

lemma setCollections_keep:
  "get_prop (objs h a) ''collection'' = Str t \<Longrightarrow>
   get_prop (objs (setCollections fs ks t h) a) ''collection'' = Str t"
  by (induction ks arbitrary: h) (auto simp: set_prop_def get_prop_assign split: option.splits)

lemma setCollections_collection:
  "k \<in> set ks \<Longrightarrow> map_of fs k = Some a \<Longrightarrow>
   get_prop (objs (setCollections fs ks t h) a) ''collection'' = Str t"
proof (induction ks arbitrary: h)
  case Nil
  then show ?case by simp
next
  case (Cons k' ks)
  show ?case
  proof (cases "k = k'")
    case True
    then show ?thesis
      using Cons.prems by (auto intro!: setCollections_keep simp: set_prop_def get_prop_assign)
  next
    case False
    then show ?thesis
      using Cons by (auto split: option.splits)
  qed
qed

lemma map_of_field_key: "map_of fs k = Some a \<Longrightarrow> k \<in> set (field_keys fs)"
  by (auto simp: field_keys_def dest: map_of_SomeD intro: rev_image_eqI)

lemma setCollections_bound:
  "map_of fs k = Some a \<Longrightarrow>
   get_prop (objs (setCollections fs (field_keys fs) t h) a) ''collection'' = Str t"
  by (rule setCollections_collection [OF map_of_field_key])

lemma unshared_key:
  assumes d: "distinct (map snd fs)" and k: "map_of fs k = Some a" and k': "map_of fs k' = Some a"
  shows "k' = k"
proof -
  have m: "(k, a) \<in> set fs" using k by (rule map_of_SomeD)
  have m': "(k', a) \<in> set fs" using k' by (rule map_of_SomeD)
  from d have "inj_on snd (set fs)" by (simp add: distinct_map)
  from inj_onD [OF this _ m' m] show ?thesis by simp
qed

lemma last_all_same: "xs \<noteq> [] \<Longrightarrow> \<forall>x\<in>set xs. x = k \<Longrightarrow> last xs = k"
  by (induction xs) auto

lemma setNames_unshared:
  assumes "distinct (map snd fs)" and "map_of fs k = Some a"
  shows "get_prop (objs (setNames fs (field_keys fs) h) a) ''name'' = Str k"
proof -
  let ?ks = "filter (\<lambda>k'. map_of fs k' = Some a) (field_keys fs)"
  have "k \<in> set ?ks"
    using assms(2) by (simp add: map_of_field_key)
  then have ne: "?ks \<noteq> []" by (metis empty_iff empty_set)
  have "\<forall>x\<in>set ?ks. x = k"
    using assms by (auto dest: unshared_key)
  with ne have "last ?ks = k" by (rule last_all_same)
  with ne show ?thesis
    by (simp add: setNames_name)
qed

lemma setMeta_other_props:
  "p \<noteq> ''collection'' \<Longrightarrow>
   get_prop (objs (setMeta g c tbl h) a) p = get_prop (objs h a) p \<and>
   has (objs (setMeta g c tbl h) a) p = has (objs h a) p"
  by (simp add: setMeta_def Let_def setCollections_other setCollections_has)

lemma setMeta_other_objects:
  "\<forall>k. map_of (cfields c) k \<noteq> Some a \<Longrightarrow> objs (setMeta g c tbl h) a = objs h a"
  by (simp add: setMeta_def Let_def setCollections_untouched)

lemma setMeta_other_metas:
  "m \<noteq> meta c \<Longrightarrow> metas (setMeta g c tbl h) m = metas h m"
  by (simp add: setMeta_def Let_def setCollections_metas)

lemma setMeta_next_meta: "next_meta (setMeta g c tbl h) = next_meta h"
  by (simp add: setMeta_def Let_def setCollections_metas)

lemma baseDefineCollection_table:
  "table (fst (baseDefineCollection u w h)) (snd (baseDefineCollection u w h)) = None"
  by (simp add: baseDefineCollection_def Let_def table_def)

lemma baseDefineCollection_collection:
  "get_prop (objs (snd (baseDefineCollection u w h)) a) ''collection'' =
     get_prop (objs h a) ''collection'' \<and>
   has (objs (snd (baseDefineCollection u w h)) a) ''collection'' = has (objs h a) ''collection''"
  by (simp add: baseDefineCollection_def Let_def setNames_other setNames_has)

lemma setNames_untouched:
  "\<forall>k\<in>set ks. map_of fs k \<noteq> Some a \<Longrightarrow> objs (setNames fs ks h) a = objs h a"
  by (induction ks arbitrary: h) (auto simp: set_prop_def split: option.splits)

lemma baseDefineCollection_other_props:
  "p \<noteq> ''name'' \<Longrightarrow>
   get_prop (objs (snd (baseDefineCollection u w h)) a) p = get_prop (objs h a) p \<and>
   has (objs (snd (baseDefineCollection u w h)) a) p = has (objs h a) p"
  by (simp add: baseDefineCollection_def Let_def setNames_other setNames_has)

lemma baseDefineCollection_other_objects:
  "\<forall>k. map_of (cfields u) k \<noteq> Some a \<Longrightarrow> objs (snd (baseDefineCollection u w h)) a = objs h a"
  by (simp add: baseDefineCollection_def Let_def setNames_untouched)

lemma baseDefineCollection_other_metas:
  "m \<noteq> next_meta h \<Longrightarrow> metas (snd (baseDefineCollection u w h)) m = metas h m"
  by (simp add: baseDefineCollection_def Let_def setNames_metas)

section \<open>Properties of the validation library and of the schemas\<close>

lemma z_union_Inr: "z_union ss v = Inr out \<Longrightarrow> \<exists>s\<in>set ss. s v = Inr out"
  by (induction ss) (auto split: sum.splits)

lemma z_union_Inl:
  "z_union ss v = Inl e \<Longrightarrow> e = ZodError invalid_union \<and> (\<forall>s\<in>set ss. \<exists>e'. s v = Inl e')"
  by (induction ss) (auto split: sum.splits)

lemma z_union_accepts:
  "(\<exists>out. z_union ss v = Inr out) \<longleftrightarrow> (\<exists>s\<in>set ss. \<exists>out. s v = Inr out)"
proof
  assume "\<exists>out. z_union ss v = Inr out"
  then show "\<exists>s\<in>set ss. \<exists>out. s v = Inr out" by (blast dest: z_union_Inr)
next
  assume "\<exists>s\<in>set ss. \<exists>out. s v = Inr out"
  then show "\<exists>out. z_union ss v = Inr out"
    by (induction ss) (auto split: sum.splits)
qed

lemma parse_shape_accepts:
  "(\<exists>out. parse_shape shape data = Inr out) \<longleftrightarrow>
   (\<forall>(k, s)\<in>set shape. \<exists>y. s (get_prop data k) = Inr y)"
  by (induction shape) (auto split: sum.splits)

lemma parse_shape_keys: "parse_shape shape data = Inr out \<Longrightarrow> has out k \<Longrightarrow> k \<in> fst ` set shape"
proof (induction shape arbitrary: out)
  case Nil
  then show ?case by (simp add: has_def)
next
  case (Cons p shape)
  obtain k' s where p: "p = (k', s)" by (cases p)
  from Cons.prems p obtain y out' where
    y: "s (get_prop data k') = Inr y" and out': "parse_shape shape data = Inr out'"
    and out: "out = (if y \<noteq> Undefined \<or> has data k' then (k', y) # out' else out')"
    by (auto split: sum.splits)
  show ?case
  proof (cases "k = k'")
    case True
    then show ?thesis by (simp add: p)
  next
    case False
    with Cons.prems(2) out have "has out' k" by (auto simp: has_Cons split: if_splits)
    with Cons.IH [OF out'] show ?thesis by simp
  qed
qed

lemma parse_shape_prop:
  "parse_shape shape data = Inr out \<Longrightarrow> distinct (map fst shape) \<Longrightarrow> (k, s) \<in> set shape \<Longrightarrow>
   s (get_prop data k) = Inr (get_prop out k)"
proof (induction shape arbitrary: out)
  case Nil
  then show ?case by simp
next
  case (Cons p shape)
  obtain k' s' where p: "p = (k', s')" by (cases p)
  from Cons.prems(1) p obtain y out' where
    y: "s' (get_prop data k') = Inr y" and out': "parse_shape shape data = Inr out'"
    and out: "out = (if y \<noteq> Undefined \<or> has data k' then (k', y) # out' else out')"
    by (auto split: sum.splits)
  show ?case
  proof (cases "k = k'")
    case True
    with Cons.prems(2,3) p have s: "s = s'"
      by (auto simp: rev_image_eqI)
    from Cons.prems(2) p have "k' \<notin> fst ` set shape" by simp
    with parse_shape_keys [OF out'] have "\<not> has out' k'" by blast
    then have "get_prop out' k' = Undefined" by (rule get_prop_absent)
    with out have "get_prop out k' = y" by (simp add: get_prop_Cons)
    with y s True show ?thesis by simp
  next
    case False
    with Cons.prems p have "(k, s) \<in> set shape" "distinct (map fst shape)" by auto
    with Cons.IH [OF out'] have "s (get_prop data k) = Inr (get_prop out' k)" by simp
    with out False show ?thesis by (simp add: get_prop_Cons)
  qed
qed

lemma z_object_Inr:
  "z_object shape v = Inr out \<Longrightarrow>
   \<exists>data out'. v = Obj data \<and> out = Obj out' \<and> parse_shape shape data = Inr out'"
  by (auto simp: z_object_def split: jsval.splits sum.splits)

lemma z_object_accepts:
  "(\<exists>out. z_object shape v = Inr out) \<longleftrightarrow>
   (\<exists>data. v = Obj data \<and> (\<forall>(k, s)\<in>set shape. \<exists>y. s (get_prop data k) = Inr y))"
proof -
  have "(\<exists>out. z_object shape v = Inr out) \<longleftrightarrow>
        (\<exists>data. v = Obj data \<and> (\<exists>out. parse_shape shape data = Inr out))"
    by (auto simp: z_object_def split: jsval.splits sum.splits)
  then show ?thesis by (simp add: parse_shape_accepts)
qed

lemma z_literal_Inr: "z_literal lit v = Inr out \<longleftrightarrow> v = lit \<and> out = lit"
  by (auto simp: z_literal_def)

lemma z_object_literal_key:
  "z_object shape v = Inr out \<Longrightarrow> (k, z_literal lit) \<in> set shape \<Longrightarrow>
   \<exists>data. v = Obj data \<and> get_prop data k = lit"
proof -
  assume a: "z_object shape v = Inr out" and m: "(k, z_literal lit) \<in> set shape"
  then have "\<exists>out. z_object shape v = Inr out" by blast
  then obtain data where v: "v = Obj data"
    and all: "\<forall>(k, s)\<in>set shape. \<exists>y. s (get_prop data k) = Inr y"
    unfolding z_object_accepts by blast
  from all m have "\<exists>y. z_literal lit (get_prop data k) = Inr y" by blast
  then have "get_prop data k = lit" by (simp add: z_literal_Inr)
  with v show ?thesis by blast
qed

lemma booleanFieldSchema_shape:
  "booleanFieldSchema =
     baseFieldSchema @
     [(''type'', z_literal (Str ''boolean'')), (''default'', z_optional z_boolean)]"
  by (simp add: booleanFieldSchema_def extend_def baseFieldSchema_def)

lemma numberFieldSchema_shape:
  "numberFieldSchema =
     baseFieldSchema @
     [(''type'', z_literal (Str ''number'')), (''default'', z_optional z_number),
      (''references'', z_optional (z_function ReturnsReferenceable)),
      (''primaryKey'', z_optional z_boolean)]"
  by (simp add: numberFieldSchema_def extend_def baseFieldSchema_def)

lemma textFieldSchema_shape:
  "textFieldSchema =
     baseFieldSchema @
     [(''type'', z_literal (Str ''text'')), (''multiline'', z_optional z_boolean),
      (''default'', z_optional z_string),
      (''references'', z_optional (z_function ReturnsReferenceable)),
      (''primaryKey'', z_optional z_boolean)]"
  by (simp add: textFieldSchema_def extend_def baseFieldSchema_def)

lemma dateFieldSchema_shape:
  "dateFieldSchema newDate isoString =
     baseFieldSchema @
     [(''type'', z_literal (Str ''date'')),
      (''default'',
         z_optional
           (z_union
              [z_literal (Str ''now''),
               z_transform (z_coerce_date newDate) (toISOString isoString)]))]"
  by (simp add: dateFieldSchema_def extend_def baseFieldSchema_def)

lemma jsonFieldSchema_shape:
  "jsonFieldSchema =
     baseFieldSchema @
     [(''type'', z_literal (Str ''json'')), (''default'', z_optional z_unknown)]"
  by (simp add: jsonFieldSchema_def extend_def baseFieldSchema_def)

lemma readableCollectionSchema_shape:
  "readableCollectionSchema newDate isoString =
     baseCollectionSchema newDate isoString @ [(''writable'', z_literal (Bool False))]"
  by (simp add: readableCollectionSchema_def extend_def baseCollectionSchema_def)

lemma writableCollectionSchema_shape:
  "writableCollectionSchema newDate isoString =
     baseCollectionSchema newDate isoString @ [(''writable'', z_literal (Bool True))]"
  by (simp add: writableCollectionSchema_def extend_def baseCollectionSchema_def)

subsection \<open>The field schema\<close>

lemma fieldSchema_Inr_type:
  assumes "fieldSchema newDate isoString v = Inr out"
  shows "\<exists>data. v = Obj data \<and> get_prop data ''type'' \<in> Str ` set FieldType"
proof -
  from assms obtain s where
    s: "s \<in> set [z_object booleanFieldSchema, z_object numberFieldSchema,
                  z_object textFieldSchema, z_object (dateFieldSchema newDate isoString),
                  z_object jsonFieldSchema]"
    and ok: "s v = Inr out"
    unfolding fieldSchema_def by (blast dest: z_union_Inr)
  from s consider
      "s = z_object booleanFieldSchema" | "s = z_object numberFieldSchema"
    | "s = z_object textFieldSchema" | "s = z_object (dateFieldSchema newDate isoString)"
    | "s = z_object jsonFieldSchema"
    by auto
  then show ?thesis
  proof cases
    case 1
    with ok z_object_literal_key [of booleanFieldSchema v out "''type''" "Str ''boolean''"]
    show ?thesis by (auto simp: booleanFieldSchema_shape FieldType_def)
  next
    case 2
    with ok z_object_literal_key [of numberFieldSchema v out "''type''" "Str ''number''"]
    show ?thesis by (auto simp: numberFieldSchema_shape FieldType_def)
  next
    case 3
    with ok z_object_literal_key [of textFieldSchema v out "''type''" "Str ''text''"]
    show ?thesis by (auto simp: textFieldSchema_shape FieldType_def)
  next
    case 4
    with ok z_object_literal_key
      [of "dateFieldSchema newDate isoString" v out "''type''" "Str ''date''"]
    show ?thesis by (auto simp: dateFieldSchema_shape FieldType_def)
  next
    case 5
    with ok z_object_literal_key [of jsonFieldSchema v out "''type''" "Str ''json''"]
    show ?thesis by (auto simp: jsonFieldSchema_shape FieldType_def)
  qed
qed

lemma fieldSchema_Inl: "fieldSchema newDate isoString v = Inl e \<Longrightarrow> e = ZodError invalid_union"
  unfolding fieldSchema_def by (blast dest: z_union_Inl)

lemma bare_field_accepted:
  assumes "t \<in> set FieldType"
  shows "\<exists>out. fieldSchema newDate isoString (Obj [(''type'', Str t)]) = Inr out"
proof -
  let ?d = "[(''type'', Str t)]"
  have base: "\<forall>(k, s)\<in>set baseFieldSchema. \<exists>y. s (get_prop ?d k) = Inr y"
    by (simp add: baseFieldSchema_def z_optional_def get_prop_Cons get_prop_Nil)
  have opt: "\<exists>y. z_optional s (get_prop ?d k) = Inr y" if "k \<noteq> ''type''" for s k
    using that by (simp add: z_optional_def get_prop_Cons get_prop_Nil)
  have lit: "\<exists>y. z_literal (Str t) (get_prop ?d ''type'') = Inr y"
    by (simp add: z_literal_def get_prop_Cons)
  from assms consider "t = ''boolean''" | "t = ''number''" | "t = ''text''" | "t = ''date''"
    | "t = ''json''"
    by (auto simp: FieldType_def)
  then have "\<exists>s\<in>set [z_object booleanFieldSchema, z_object numberFieldSchema,
                  z_object textFieldSchema, z_object (dateFieldSchema newDate isoString),
                  z_object jsonFieldSchema]. \<exists>out. s (Obj ?d) = Inr out"
  proof cases
    case 1
    have "\<exists>out. z_object booleanFieldSchema (Obj ?d) = Inr out"
      unfolding z_object_accepts booleanFieldSchema_shape using base opt lit 1 by simp
    then show ?thesis by simp
  next
    case 2
    have "\<exists>out. z_object numberFieldSchema (Obj ?d) = Inr out"
      unfolding z_object_accepts numberFieldSchema_shape using base opt lit 2 by simp
    then show ?thesis by simp
  next
    case 3
    have "\<exists>out. z_object textFieldSchema (Obj ?d) = Inr out"
      unfolding z_object_accepts textFieldSchema_shape using base opt lit 3 by simp
    then show ?thesis by simp
  next
    case 4
    have "\<exists>out. z_object (dateFieldSchema newDate isoString) (Obj ?d) = Inr out"
      unfolding z_object_accepts dateFieldSchema_shape using base opt lit 4 by simp
    then show ?thesis by simp
  next
    case 5
    have "\<exists>out. z_object jsonFieldSchema (Obj ?d) = Inr out"
      unfolding z_object_accepts jsonFieldSchema_shape using base opt lit 5 by simp
    then show ?thesis by simp
  qed
  then show ?thesis
    unfolding fieldSchema_def z_union_accepts .
qed

subsection \<open>The date field schema\<close>

lemma date_default:
  "z_optional
     (z_union [z_literal (Str ''now''),
               z_transform (z_coerce_date newDate) (toISOString isoString)]) v =
   (if v = Undefined then Inr Undefined
    else if v = Str ''now'' then Inr (Str ''now'')
    else (case newDate v of
            Some t \<Rightarrow> Inr (Str (isoString t))
          | None \<Rightarrow> Inl (ZodError invalid_union)))"
  by (simp add: z_optional_def z_literal_def z_transform_def z_coerce_date_def toISOString_def
      split: option.splits)

lemma distinct_dateFieldSchema: "distinct (map fst (dateFieldSchema newDate isoString))"
  by (simp add: dateFieldSchema_shape baseFieldSchema_def)

lemma dateFieldSchema_accepts:
  "(\<exists>out. z_object (dateFieldSchema newDate isoString) (Obj data) = Inr out) \<longleftrightarrow>
   (\<exists>out. z_object baseFieldSchema (Obj data) = Inr out) \<and>
   get_prop data ''type'' = Str ''date'' \<and>
   (get_prop data ''default'' = Undefined \<or> get_prop data ''default'' = Str ''now'' \<or>
    newDate (get_prop data ''default'') \<noteq> None)"
  unfolding z_object_accepts dateFieldSchema_shape
  by (auto simp: ball_Un date_default z_literal_Inr split: option.splits)

lemma dateFieldSchema_out_default:
  assumes "z_object (dateFieldSchema newDate isoString) (Obj data) = Inr (Obj out)"
  shows "z_optional
     (z_union [z_literal (Str ''now''),
               z_transform (z_coerce_date newDate) (toISOString isoString)])
     (get_prop data ''default'') = Inr (get_prop out ''default'')"
proof -
  from assms have p: "parse_shape (dateFieldSchema newDate isoString) data = Inr out"
    by (auto dest: z_object_Inr)
  show ?thesis
    by (rule parse_shape_prop [OF p distinct_dateFieldSchema])
      (simp add: dateFieldSchema_shape del: z_union.simps)
qed

lemma eval_date_now:
  "z_object (dateFieldSchema epoch_only epoch_iso)
     (Obj [(''type'', Str ''date''), (''default'', Str ''now'')]) =
   Inr (Obj [(''type'', Str ''date''), (''default'', Str ''now'')])"
  by (simp add: z_object_def dateFieldSchema_shape baseFieldSchema_def date_default
      z_optional_def z_literal_def get_prop_Cons get_prop_Nil has_Cons has_Nil)

lemma eval_date_epoch:
  "z_object (dateFieldSchema epoch_only epoch_iso)
     (Obj [(''type'', Str ''date''), (''default'', Num (Finite 0))]) =
   Inr (Obj [(''type'', Str ''date''), (''default'', Str ''1970-01-01T00:00:00.000Z'')])"
  by (simp add: z_object_def dateFieldSchema_shape baseFieldSchema_def date_default
      z_optional_def z_literal_def get_prop_Cons get_prop_Nil has_Cons has_Nil
      z_transform_def z_coerce_date_def toISOString_def epoch_only_def epoch_iso_def)

subsection \<open>Referenceable fields\<close>

lemma distinct_numberFieldSchema: "distinct (map fst numberFieldSchema)"
  by (simp add: numberFieldSchema_shape baseFieldSchema_def)

lemma distinct_textFieldSchema: "distinct (map fst textFieldSchema)"
  by (simp add: textFieldSchema_shape baseFieldSchema_def)

lemma text_number_exclusive:
  "z_object textFieldSchema v = Inr out \<Longrightarrow> z_object numberFieldSchema v = Inr out' \<Longrightarrow> False"
proof -
  assume t: "z_object textFieldSchema v = Inr out" and n: "z_object numberFieldSchema v = Inr out'"
  from z_object_literal_key [OF t, of "''type''" "Str ''text''"]
  obtain data where "v = Obj data" "get_prop data ''type'' = Str ''text''"
    by (auto simp: textFieldSchema_shape)
  moreover from z_object_literal_key [OF n, of "''type''" "Str ''number''"]
  obtain data' where "v = Obj data'" "get_prop data' ''type'' = Str ''number''"
    by (auto simp: numberFieldSchema_shape)
  ultimately show False by simp
qed

lemma referenceableFieldSchema_Inr:
  "referenceableFieldSchema v = Inr out \<longleftrightarrow>
   z_object textFieldSchema v = Inr out \<or> z_object numberFieldSchema v = Inr out"
proof
  assume "referenceableFieldSchema v = Inr out"
  then show "z_object textFieldSchema v = Inr out \<or> z_object numberFieldSchema v = Inr out"
    unfolding referenceableFieldSchema_def by (auto simp del: z_union.simps dest!: z_union_Inr)
next
  assume a: "z_object textFieldSchema v = Inr out \<or> z_object numberFieldSchema v = Inr out"
  show "referenceableFieldSchema v = Inr out"
  proof (cases "z_object textFieldSchema v")
    case (Inr o')
    with a text_number_exclusive [of v o' out] show ?thesis
      by (auto simp: referenceableFieldSchema_def)
  next
    case (Inl e)
    with a show ?thesis
      by (auto simp: referenceableFieldSchema_def)
  qed
qed

lemma z_object_out_type:
  assumes "z_object shape v = Inr out" and "distinct (map fst shape)"
    and "(''type'', z_literal lit) \<in> set shape"
  shows "\<exists>d. out = Obj d \<and> get_prop d ''type'' = lit"
proof -
  from assms(1) obtain data d where v: "v = Obj data" and out: "out = Obj d"
    and p: "parse_shape shape data = Inr d"
    by (auto dest: z_object_Inr)
  from parse_shape_prop [OF p assms(2,3)] have "get_prop d ''type'' = lit"
    by (simp add: z_literal_def split: if_splits)
  with out show ?thesis by simp
qed

lemma referenceable_out_type:
  assumes "referenceableFieldSchema v = Inr out"
  shows "\<exists>d. out = Obj d \<and> (get_prop d ''type'' = Str ''text'' \<or> get_prop d ''type'' = Str ''number'')"
proof -
  from assms consider "z_object textFieldSchema v = Inr out" | "z_object numberFieldSchema v = Inr out"
    unfolding referenceableFieldSchema_Inr by blast
  then show ?thesis
  proof cases
    case 1
    from z_object_out_type [OF 1 distinct_textFieldSchema, of "Str ''text''"]
    show ?thesis by (auto simp: textFieldSchema_shape)
  next
    case 2
    from z_object_out_type [OF 2 distinct_numberFieldSchema, of "Str ''number''"]
    show ?thesis by (auto simp: numberFieldSchema_shape)
  qed
qed

lemma no_references_key:
  "''references'' \<notin> fst ` set booleanFieldSchema"
  "''references'' \<notin> fst ` set (dateFieldSchema newDate isoString)"
  "''references'' \<notin> fst ` set jsonFieldSchema"
  by (simp_all add: booleanFieldSchema_shape dateFieldSchema_shape jsonFieldSchema_shape
      baseFieldSchema_def)

lemma z_object_no_key:
  "z_object shape v = Inr (Obj out) \<Longrightarrow> k \<notin> fst ` set shape \<Longrightarrow> \<not> has out k"
  by (auto dest!: z_object_Inr dest: parse_shape_keys)

lemma no_references_out:
  "z_object booleanFieldSchema v = Inr (Obj fld) \<Longrightarrow> \<not> has fld ''references''"
  "z_object (dateFieldSchema newDate isoString) v = Inr (Obj fld) \<Longrightarrow> \<not> has fld ''references''"
  "z_object jsonFieldSchema v = Inr (Obj fld) \<Longrightarrow> \<not> has fld ''references''"
  by (erule z_object_no_key, rule no_references_key)+

lemma optional_function:
  "z_optional (z_function r) v = Inr y \<longleftrightarrow>
   (v = Undefined \<and> y = Undefined) \<or> (is_function v \<and> y = Wrapped r v)"
  by (auto simp: z_optional_def z_function_def is_function_def)

lemma call_Wrapped:
  "call (Wrapped t f) = Inr r \<longleftrightarrow> (\<exists>x. call f = Inr x \<and> returns_schema t x = Inr r)"
  by (auto split: sum.splits)

lemma references_of_parsed:
  assumes "z_object shape (Obj data) = Inr (Obj out)" and "distinct (map fst shape)"
    and "(''references'', z_optional (z_function ReturnsReferenceable)) \<in> set shape"
  shows "(get_prop data ''references'' = Undefined \<and> get_prop out ''references'' = Undefined) \<or>
         (is_function (get_prop data ''references'') \<and>
          get_prop out ''references'' = Wrapped ReturnsReferenceable (get_prop data ''references''))"
proof -
  from assms(1) have p: "parse_shape shape data = Inr out"
    by (auto dest: z_object_Inr)
  from parse_shape_prop [OF p assms(2,3)] show ?thesis
    by (simp add: optional_function)
qed

lemma call_checked_references:
  assumes "call (Wrapped ReturnsReferenceable f) = Inr r"
  shows "(\<exists>x. call f = Inr x \<and> referenceableFieldSchema x = Inr r) \<and>
         (\<exists>d. r = Obj d \<and> (get_prop d ''type'' = Str ''text'' \<or> get_prop d ''type'' = Str ''number''))"
proof -
  from assms obtain x where x: "call f = Inr x" "referenceableFieldSchema x = Inr r"
    by (auto simp: returns_schema_def split: sum.splits)
  with referenceable_out_type [OF x(2)] show ?thesis by blast
qed

lemma eval_text_referencing_number:
  "z_object textFieldSchema (Obj text_referencing_number) =
   Inr (Obj [(''type'', Str ''text''),
             (''references'',
              Wrapped ReturnsReferenceable (Fun (Obj [(''type'', Str ''number'')])))])"
  by (simp add: text_referencing_number_def z_object_def textFieldSchema_shape
      baseFieldSchema_def z_optional_def z_literal_def z_function_def is_function_def
      get_prop_Cons get_prop_Nil has_Cons has_Nil)

lemma eval_boolean_with_references:
  "z_object booleanFieldSchema (Obj boolean_with_references) = Inr (Obj [(''type'', Str ''boolean'')])"
  by (simp add: boolean_with_references_def z_object_def booleanFieldSchema_shape
      baseFieldSchema_def z_optional_def z_literal_def
      get_prop_Cons get_prop_Nil has_Cons has_Nil)

lemma eval_number_field:
  "z_object numberFieldSchema (Obj [(''type'', Str ''number'')]) = Inr (Obj [(''type'', Str ''number'')])"
  by (simp add: z_object_def numberFieldSchema_shape
      baseFieldSchema_def z_optional_def z_literal_def
      get_prop_Cons get_prop_Nil has_Cons has_Nil)

lemma eval_call_references:
  "call (Wrapped ReturnsReferenceable (Fun (Obj [(''type'', Str ''number'')]))) =
   Inr (Obj [(''type'', Str ''number'')])"
proof -
  have "referenceableFieldSchema (Obj [(''type'', Str ''number'')]) =
        Inr (Obj [(''type'', Str ''number'')])"
    unfolding referenceableFieldSchema_Inr using eval_number_field by simp
  then show ?thesis by (simp add: returns_schema_def)
qed

subsection \<open>The collection schema\<close>

lemma z_optional_accepts:
  "(\<exists>y. z_optional s v = Inr y) \<longleftrightarrow> v = Undefined \<or> (\<exists>y. s v = Inr y)"
  by (auto simp: z_optional_def)

lemma z_record_Inr_obj: "z_record s v = Inr out \<Longrightarrow> \<exists>data. v = Obj data"
  by (auto simp: z_record_def split: jsval.splits)

lemma z_literal_bool:
  "(\<exists>y. z_literal (Bool False) v = Inr y) \<or> (\<exists>y. z_literal (Bool True) v = Inr y) \<longleftrightarrow>
   (\<exists>b. v = Bool b)"
  by (auto simp: z_literal_def)

lemma Bool_cases: "(x = Bool False \<or> x = Bool True) \<longleftrightarrow> (\<exists>b. x = Bool b)"
proof
  assume "x = Bool False \<or> x = Bool True"
  then show "\<exists>b. x = Bool b" by blast
next
  assume "\<exists>b. x = Bool b"
  then obtain b where "x = Bool b" ..
  then show "x = Bool False \<or> x = Bool True" by (cases b) simp_all
qed

lemma collection_shape_accepts:
  "(\<forall>(k, s)\<in>set (baseCollectionSchema newDate isoString @ [(''writable'', z_literal lit)]).
      \<exists>y. s (get_prop data k) = Inr y) \<longleftrightarrow>
   (\<exists>y. fieldsSchema newDate isoString (get_prop data ''fields'') = Inr y) \<and>
   (get_prop data ''indexes'' = Undefined \<or>
    (\<exists>y. z_record (z_object indexSchema) (get_prop data ''indexes'') = Inr y)) \<and>
   (get_prop data ''foreignKeys'' = Undefined \<or>
    (\<exists>y. z_array (z_object foreignKeysSchema) (get_prop data ''foreignKeys'') = Inr y)) \<and>
   (get_prop data ''_setMeta'' = Undefined \<or> is_function (get_prop data ''_setMeta'')) \<and>
   get_prop data ''writable'' = lit"
  by (auto simp: baseCollectionSchema_def z_optional_accepts z_any_def z_literal_Inr
      z_function_def)

lemma collectionSchema_accepts:
  "(\<exists>out. collectionSchema newDate isoString v = Inr out) \<longleftrightarrow>
   (\<exists>data. v = Obj data \<and>
      (\<exists>y. fieldsSchema newDate isoString (get_prop data ''fields'') = Inr y) \<and>
      (get_prop data ''indexes'' = Undefined \<or>
       (\<exists>y. z_record (z_object indexSchema) (get_prop data ''indexes'') = Inr y)) \<and>
      (get_prop data ''foreignKeys'' = Undefined \<or>
       (\<exists>y. z_array (z_object foreignKeysSchema) (get_prop data ''foreignKeys'') = Inr y)) \<and>
      (get_prop data ''_setMeta'' = Undefined \<or> is_function (get_prop data ''_setMeta'')) \<and>
      (\<exists>b. get_prop data ''writable'' = Bool b))"
proof -
  have "(\<exists>out. collectionSchema newDate isoString v = Inr out) \<longleftrightarrow>
        (\<exists>out. z_object (readableCollectionSchema newDate isoString) v = Inr out) \<or>
        (\<exists>out. z_object (writableCollectionSchema newDate isoString) v = Inr out)"
    unfolding collectionSchema_def z_union_accepts by auto
  also have "\<dots> \<longleftrightarrow> (\<exists>data. v = Obj data \<and>
      (\<exists>y. fieldsSchema newDate isoString (get_prop data ''fields'') = Inr y) \<and>
      (get_prop data ''indexes'' = Undefined \<or>
       (\<exists>y. z_record (z_object indexSchema) (get_prop data ''indexes'') = Inr y)) \<and>
      (get_prop data ''foreignKeys'' = Undefined \<or>
       (\<exists>y. z_array (z_object foreignKeysSchema) (get_prop data ''foreignKeys'') = Inr y)) \<and>
      (get_prop data ''_setMeta'' = Undefined \<or> is_function (get_prop data ''_setMeta'')) \<and>
      (get_prop data ''writable'' = Bool False \<or> get_prop data ''writable'' = Bool True))"
    unfolding z_object_accepts readableCollectionSchema_shape writableCollectionSchema_shape
      collection_shape_accepts
    by blast
  also have "\<dots> \<longleftrightarrow> (\<exists>data. v = Obj data \<and>
      (\<exists>y. fieldsSchema newDate isoString (get_prop data ''fields'') = Inr y) \<and>
      (get_prop data ''indexes'' = Undefined \<or>
       (\<exists>y. z_record (z_object indexSchema) (get_prop data ''indexes'') = Inr y)) \<and>
      (get_prop data ''foreignKeys'' = Undefined \<or>
       (\<exists>y. z_array (z_object foreignKeysSchema) (get_prop data ''foreignKeys'') = Inr y)) \<and>
      (get_prop data ''_setMeta'' = Undefined \<or> is_function (get_prop data ''_setMeta'')) \<and>
      (\<exists>b. get_prop data ''writable'' = Bool b))"
    by (simp only: Bool_cases)
  finally show ?thesis .
qed

lemma collectionSchema_Inl:
  "collectionSchema newDate isoString v = Inl e \<Longrightarrow> e = ZodError invalid_union"
  unfolding collectionSchema_def by (blast dest: z_union_Inl)

lemma collectionSchema_rejects:
  "\<not> (\<exists>out. collectionSchema newDate isoString v = Inr out) \<Longrightarrow>
   collectionSchema newDate isoString v = Inl (ZodError invalid_union)"
  by (cases "collectionSchema newDate isoString v") (auto dest: collectionSchema_Inl)

lemma fieldsSchema_empty: "fieldsSchema newDate isoString (Obj []) = Inr (Obj [])"
  by (simp add: fieldsSchema_def z_record_def keys_def)

lemma eval_minimal_collection:
  "collectionSchema epoch_only epoch_iso (Obj [(''fields'', Obj []), (''writable'', Bool True)]) =
   Inr (Obj [(''fields'', Obj []), (''writable'', Bool True)])"
  by (simp add: collectionSchema_def z_object_def
      readableCollectionSchema_shape writableCollectionSchema_shape baseCollectionSchema_def
      fieldsSchema_def z_record_def keys_def z_optional_def z_literal_def z_any_def
      get_prop_Cons get_prop_Nil has_Cons has_Nil)

subsection \<open>The configuration schema\<close>







subsection \<open>A key written twice\<close>








subsection \<open>The errors of the configuration schema\<close>





subsection \<open>What an object literal holds\<close>

lemma has_append: "has (xs @ ys) k = (has xs k \<or> has ys k)"
  by (auto simp: has_def)






section \<open>Field names and table binding\<close>

text \<open>
  C1 (as amended). When no field object is held by two keys of the fields record, the
  collection returned by \<^verbatim>\<open>defineCollection\<close> or \<^verbatim>\<open>defineWritableCollection\<close> maps every
  key to a field whose \<^verbatim>\<open>name\<close> property is that key.
\<close>

theorem field_names_unshared:
  assumes "distinct (map snd (cfields userConfig))"
  shows "(\<forall>k a. map_of (cfields (fst (defineCollection userConfig h))) k = Some a \<longrightarrow>
            get_prop (objs (snd (defineCollection userConfig h)) a) ''name'' = Str k) \<and>
         (\<forall>k a. map_of (cfields (fst (defineWritableCollection userConfig h))) k = Some a \<longrightarrow>
            get_prop (objs (snd (defineWritableCollection userConfig h)) a) ''name'' = Str k)"
  using assms
  by (simp add: defineCollection_def defineWritableCollection_def baseDefineCollection_def
      Let_def setNames_unshared)

theorem field_names_unshared_witness:
  "distinct (map snd (cfields one_field_config)) \<and>
   map_of (cfields (fst (defineCollection one_field_config example_heap))) ''id'' = Some 0 \<and>
   get_prop (objs (snd (defineCollection one_field_config example_heap)) 0) ''name'' = Str ''id''"
proof -
  have d: "distinct (map snd (cfields one_field_config))"
    by (simp add: one_field_config_def)
  have m: "map_of (cfields (fst (defineCollection one_field_config example_heap))) ''id'' = Some 0"
    by (simp add: one_field_config_def defineCollection_def baseDefineCollection_def Let_def)
  from field_names_unshared [OF d, of example_heap] m d show ?thesis by blast
qed

text \<open>
  C1 as stated fails when one field object sits under two keys: the loop writes the name
  into the object itself, so the key written last wins and the field under \<^verbatim>\<open>a\<close> is
  named \<^verbatim>\<open>b\<close>.
\<close>

theorem shared_field_name_counterexample:
  "map_of (cfields (fst (defineCollection shared_field_config example_heap))) ''a'' = Some 0 \<and>
   get_prop (objs (snd (defineCollection shared_field_config example_heap)) 0) ''name'' = Str ''b'' \<and>
   get_prop (objs (snd (defineCollection shared_field_config example_heap)) 0) ''name'' \<noteq> Str ''a''"
  by (simp add: shared_field_config_def example_heap_def defineCollection_def
      baseDefineCollection_def Let_def field_keys_def set_prop_def assign_def get_prop_def)

text \<open>
  C2. For a collection returned by \<^verbatim>\<open>defineCollection\<close> or \<^verbatim>\<open>defineWritableCollection\<close>,
  in whatever state \<^verbatim>\<open>_setMeta\<close> is called with a table: afterwards the \<^verbatim>\<open>table\<close>
  property is that table, and the \<^verbatim>\<open>collection\<close> property of every field of the
  collection is the name of that table.
\<close>

theorem setMeta_binds_table:
  assumes "c = fst (defineCollection userConfig h0) \<or>
           c = fst (defineWritableCollection userConfig h0)"
  shows "table c (setMeta getTableName c tbl h) = Some tbl \<and>
         (\<forall>k a. map_of (cfields c) k = Some a \<longrightarrow>
            get_prop (objs (setMeta getTableName c tbl h) a) ''collection'' =
              Str (getTableName tbl))"
  by (simp add: table_def setMeta_def Let_def setCollections_metas setCollections_bound)

theorem setMeta_binds_table_witness:
  "table (fst (defineCollection one_field_config example_heap))
     (setMeta (\<lambda>t. t) (fst (defineCollection one_field_config example_heap)) ''users''
        (snd (defineCollection one_field_config example_heap))) = Some ''users'' \<and>
   map_of (cfields (fst (defineCollection one_field_config example_heap))) ''id'' = Some 0 \<and>
   get_prop
     (objs (setMeta (\<lambda>t. t) (fst (defineCollection one_field_config example_heap)) ''users''
        (snd (defineCollection one_field_config example_heap))) 0) ''collection'' = Str ''users''"
proof -
  have m: "map_of (cfields (fst (defineCollection one_field_config example_heap))) ''id'' = Some 0"
    by (simp add: one_field_config_def defineCollection_def baseDefineCollection_def Let_def)
  from setMeta_binds_table
    [of "fst (defineCollection one_field_config example_heap)" one_field_config example_heap
        "\<lambda>t. t" "''users''" "snd (defineCollection one_field_config example_heap)"] m
  show ?thesis by simp
qed

text \<open>
  C10 (as amended). For a collection returned by \<^verbatim>\<open>defineCollection\<close> or
  \<^verbatim>\<open>defineWritableCollection\<close>: before any call to \<^verbatim>\<open>_setMeta\<close> its \<^verbatim>\<open>table\<close> is
  \<^verbatim>\<open>null\<close>, and the \<^verbatim>\<open>collection\<close> property of every field object is what the object
  held when it was passed in (unset exactly when it was unset there). A call to
  \<^verbatim>\<open>_setMeta\<close>, in whatever state, changes nothing but the table binding of this
  collection and the \<^verbatim>\<open>collection\<close> property of its fields: every other property of
  every field object (name, type, default and the rest) is as before, objects that are not
  fields of the collection are untouched, and so are the bindings of other collections.
  The \<^verbatim>\<open>writable\<close> tag, \<^verbatim>\<open>indexes\<close> and \<^verbatim>\<open>foreignKeys\<close> belong to the collection
  value \<open>c\<close>, which \<^verbatim>\<open>_setMeta\<close> does not write.
\<close>

theorem setMeta_frame:
  assumes "(c, h1) = defineCollection userConfig h0 \<or>
           (c, h1) = defineWritableCollection userConfig h0"
  shows "table c h1 = None \<and>
         (\<forall>a. get_prop (objs h1 a) ''collection'' = get_prop (objs h0 a) ''collection'' \<and>
              has (objs h1 a) ''collection'' = has (objs h0 a) ''collection'') \<and>
         (\<forall>a p. p \<noteq> ''collection'' \<longrightarrow>
              get_prop (objs (setMeta getTableName c tbl h) a) p = get_prop (objs h a) p \<and>
              has (objs (setMeta getTableName c tbl h) a) p = has (objs h a) p) \<and>
         (\<forall>a. (\<forall>k. map_of (cfields c) k \<noteq> Some a) \<longrightarrow>
              objs (setMeta getTableName c tbl h) a = objs h a) \<and>
         (\<forall>m. m \<noteq> meta c \<longrightarrow> metas (setMeta getTableName c tbl h) m = metas h m) \<and>
         next_meta (setMeta getTableName c tbl h) = next_meta h"
proof -
  from assms obtain w where c: "c = fst (baseDefineCollection userConfig w h0)"
    and h1: "h1 = snd (baseDefineCollection userConfig w h0)"
    by (metis defineCollection_def defineWritableCollection_def fst_conv snd_conv)
  have "table c h1 = None"
    unfolding c h1 by (rule baseDefineCollection_table)
  moreover have "\<forall>a. get_prop (objs h1 a) ''collection'' = get_prop (objs h0 a) ''collection'' \<and>
              has (objs h1 a) ''collection'' = has (objs h0 a) ''collection''"
    unfolding h1 by (simp add: baseDefineCollection_collection)
  ultimately show ?thesis
    by (simp add: setMeta_other_props setMeta_other_objects setMeta_other_metas setMeta_next_meta)
qed

theorem setMeta_frame_witness:
  "table (fst (defineCollection one_field_config preset_collection_heap))
     (snd (defineCollection one_field_config preset_collection_heap)) = None \<and>
   get_prop (objs (snd (defineCollection one_field_config preset_collection_heap)) 0) ''collection''
     = Str ''users'' \<and>
   ''type'' \<noteq> ''collection'' \<and>
   get_prop
     (objs (setMeta (\<lambda>t. t) (fst (defineCollection one_field_config preset_collection_heap))
        ''posts'' (snd (defineCollection one_field_config preset_collection_heap))) 0) ''type''
     = Str ''text'' \<and>
   get_prop
     (objs (setMeta (\<lambda>t. t) (fst (defineCollection one_field_config preset_collection_heap))
        ''posts'' (snd (defineCollection one_field_config preset_collection_heap))) 0) ''name''
     = Str ''id''"
proof -
  let ?r = "defineCollection one_field_config preset_collection_heap"
  have e: "(fst ?r, snd ?r) = defineCollection one_field_config preset_collection_heap \<or>
           (fst ?r, snd ?r) = defineWritableCollection one_field_config preset_collection_heap"
    by simp
  have p: "get_prop (objs preset_collection_heap 0) ''collection'' = Str ''users''"
    by (simp add: preset_collection_heap_def get_prop_def)
  have t: "get_prop (objs (snd ?r) 0) ''type'' = Str ''text''"
    by (simp add: one_field_config_def preset_collection_heap_def defineCollection_def
        baseDefineCollection_def Let_def field_keys_def set_prop_def assign_def get_prop_def)
  have n: "get_prop (objs (snd ?r) 0) ''name'' = Str ''id''"
    by (simp add: one_field_config_def preset_collection_heap_def defineCollection_def
        baseDefineCollection_def Let_def field_keys_def set_prop_def assign_def get_prop_def)
  have ne: "''type'' \<noteq> ''collection''" "''name'' \<noteq> ''collection''" by simp_all
  from setMeta_frame [OF e, of "\<lambda>t. t" "''posts''" "snd ?r"] p t n ne
  show ?thesis by simp
qed

text \<open>
  C10 as stated fails for a field object that already carries a \<^verbatim>\<open>collection\<close>
  property: \<^verbatim>\<open>defineCollection\<close> leaves it in place, so it is set before any call to
  \<^verbatim>\<open>_setMeta\<close>.
\<close>

theorem preset_collection_counterexample:
  "map_of (cfields (fst (defineCollection one_field_config preset_collection_heap))) ''id'' = Some 0 \<and>
   get_prop (objs (snd (defineCollection one_field_config preset_collection_heap)) 0) ''collection''
     = Str ''users'' \<and>
   get_prop (objs (snd (defineCollection one_field_config preset_collection_heap)) 0) ''collection''
     \<noteq> Undefined"
  by (simp add: one_field_config_def preset_collection_heap_def defineCollection_def
      baseDefineCollection_def Let_def field_keys_def set_prop_def assign_def get_prop_def)

section \<open>The configuration API\<close>

text \<open>
  C5. \<^verbatim>\<open>defineCollection\<close> returns a collection tagged \<^verbatim>\<open>writable: false\<close> and
  \<^verbatim>\<open>defineWritableCollection\<close> one tagged \<^verbatim>\<open>writable: true\<close>, and what the user
  configured is carried over. In \<^verbatim>\<open>config.ts\<close> every property other than \<^verbatim>\<open>writable\<close>
  (fields, data, seed and any other) is in the result exactly as in the user's object. In
  the variant with deferred table binding the result has the user's fields record, indexes
  and foreignKeys, and the field objects themselves are carried over too: in the store
  that is returned every property of every object other than \<^verbatim>\<open>name\<close> is as before,
  an object that is not a field of the configuration is untouched, and so is the table
  binding of every collection defined earlier.
\<close>

theorem defineCollection_carries_config:
  "get_prop (config_defineCollection userConfig) ''writable'' = Bool False \<and>
   get_prop (config_defineWritableCollection userConfig) ''writable'' = Bool True \<and>
   (\<forall>k. k \<noteq> ''writable'' \<longrightarrow>
      get_prop (config_defineCollection userConfig) k = get_prop userConfig k \<and>
      has (config_defineCollection userConfig) k = has userConfig k \<and>
      get_prop (config_defineWritableCollection userConfig) k = get_prop userConfig k \<and>
      has (config_defineWritableCollection userConfig) k = has userConfig k) \<and>
   writable (fst (defineCollection cfg h)) = False \<and>
   writable (fst (defineWritableCollection cfg h)) = True \<and>
   cfields (fst (defineCollection cfg h)) = cfields cfg \<and>
   indexes (fst (defineCollection cfg h)) = indexes cfg \<and>
   foreignKeys (fst (defineCollection cfg h)) = foreignKeys cfg \<and>
   cfields (fst (defineWritableCollection cfg h)) = cfields cfg \<and>
   indexes (fst (defineWritableCollection cfg h)) = indexes cfg \<and>
   foreignKeys (fst (defineWritableCollection cfg h)) = foreignKeys cfg \<and>
   (\<forall>a p. p \<noteq> ''name'' \<longrightarrow>
      get_prop (objs (snd (defineCollection cfg h)) a) p = get_prop (objs h a) p \<and>
      has (objs (snd (defineCollection cfg h)) a) p = has (objs h a) p \<and>
      get_prop (objs (snd (defineWritableCollection cfg h)) a) p = get_prop (objs h a) p \<and>
      has (objs (snd (defineWritableCollection cfg h)) a) p = has (objs h a) p) \<and>
   (\<forall>a. (\<forall>k. map_of (cfields cfg) k \<noteq> Some a) \<longrightarrow>
      objs (snd (defineCollection cfg h)) a = objs h a \<and>
      objs (snd (defineWritableCollection cfg h)) a = objs h a) \<and>
   (\<forall>m. m \<noteq> next_meta h \<longrightarrow>
      metas (snd (defineCollection cfg h)) m = metas h m \<and>
      metas (snd (defineWritableCollection cfg h)) m = metas h m)"
proof -
  have a: "get_prop (spread userConfig []) k = get_prop userConfig k" for k
    by (simp add: get_prop_spread get_prop_absent) (simp add: get_prop_def)
  have b: "has (spread userConfig []) k = has userConfig k" for k
    by (simp add: has_spread) (simp add: has_def)
  have config: "get_prop (config_defineCollection userConfig) ''writable'' = Bool False \<and>
   get_prop (config_defineWritableCollection userConfig) ''writable'' = Bool True \<and>
   (\<forall>k. k \<noteq> ''writable'' \<longrightarrow>
      get_prop (config_defineCollection userConfig) k = get_prop userConfig k \<and>
      has (config_defineCollection userConfig) k = has userConfig k \<and>
      get_prop (config_defineWritableCollection userConfig) k = get_prop userConfig k \<and>
      has (config_defineWritableCollection userConfig) k = has userConfig k)"
    by (simp add: config_defineCollection_def config_defineWritableCollection_def
        get_prop_assign has_assign a b)
  have result: "writable (fst (defineCollection cfg h)) = False \<and>
   writable (fst (defineWritableCollection cfg h)) = True \<and>
   cfields (fst (defineCollection cfg h)) = cfields cfg \<and>
   indexes (fst (defineCollection cfg h)) = indexes cfg \<and>
   foreignKeys (fst (defineCollection cfg h)) = foreignKeys cfg \<and>
   cfields (fst (defineWritableCollection cfg h)) = cfields cfg \<and>
   indexes (fst (defineWritableCollection cfg h)) = indexes cfg \<and>
   foreignKeys (fst (defineWritableCollection cfg h)) = foreignKeys cfg"
    by (simp add: defineCollection_def defineWritableCollection_def
        baseDefineCollection_def Let_def)
  have store: "(\<forall>a p. p \<noteq> ''name'' \<longrightarrow>
      get_prop (objs (snd (defineCollection cfg h)) a) p = get_prop (objs h a) p \<and>
      has (objs (snd (defineCollection cfg h)) a) p = has (objs h a) p \<and>
      get_prop (objs (snd (defineWritableCollection cfg h)) a) p = get_prop (objs h a) p \<and>
      has (objs (snd (defineWritableCollection cfg h)) a) p = has (objs h a) p) \<and>
   (\<forall>a. (\<forall>k. map_of (cfields cfg) k \<noteq> Some a) \<longrightarrow>
      objs (snd (defineCollection cfg h)) a = objs h a \<and>
      objs (snd (defineWritableCollection cfg h)) a = objs h a) \<and>
   (\<forall>m. m \<noteq> next_meta h \<longrightarrow>
      metas (snd (defineCollection cfg h)) m = metas h m \<and>
      metas (snd (defineWritableCollection cfg h)) m = metas h m)"
    unfolding defineCollection_def defineWritableCollection_def
    by (simp add: baseDefineCollection_other_props baseDefineCollection_other_objects
        baseDefineCollection_other_metas)
  from config result store show ?thesis by blast
qed

theorem defineCollection_carries_config_witness:
  "''data'' \<noteq> ''writable'' \<and>
   get_prop (config_defineCollection [(''fields'', Obj []), (''data'', Fun (Arr []))]) ''data''
     = Fun (Arr []) \<and>
   get_prop (config_defineCollection [(''fields'', Obj []), (''data'', Fun (Arr []))]) ''writable''
     = Bool False \<and>
   ''type'' \<noteq> ''name'' \<and>
   get_prop (objs (snd (defineCollection one_field_config preset_collection_heap)) 0) ''type''
     = Str ''text'' \<and>
   map_of (cfields one_field_config) ''id'' = Some 0 \<and>
   (\<forall>k. map_of (cfields one_field_config) k \<noteq> Some 1) \<and>
   objs (snd (defineCollection one_field_config preset_collection_heap)) 1
     = [(''type'', Str ''text''), (''collection'', Str ''users'')] \<and>
   Suc 0 \<noteq> next_meta preset_collection_heap \<and>
   metas (snd (defineCollection one_field_config preset_collection_heap)) (Suc 0) = None"
proof -
  have ne: "''data'' \<noteq> ''writable''" "''type'' \<noteq> ''name''" by simp_all
  have d: "get_prop [(''fields'', Obj []), (''data'', Fun (Arr []))] ''data'' = Fun (Arr [])"
    by (simp add: get_prop_Cons)
  have t: "get_prop (objs preset_collection_heap 0) ''type'' = Str ''text''"
    by (simp add: preset_collection_heap_def get_prop_Cons)
  have o: "objs preset_collection_heap 1 = [(''type'', Str ''text''), (''collection'', Str ''users'')]"
    by (simp add: preset_collection_heap_def)
  have f: "map_of (cfields one_field_config) ''id'' = Some 0"
    "\<forall>k. map_of (cfields one_field_config) k \<noteq> Some 1"
    by (simp_all add: one_field_config_def)
  have m: "Suc 0 \<noteq> next_meta preset_collection_heap" "metas preset_collection_heap (Suc 0) = None"
    by (simp_all add: preset_collection_heap_def)
  note inst = defineCollection_carries_config
    [of "[(''fields'', Obj []), (''data'', Fun (Arr []))]" one_field_config preset_collection_heap]
  from inst ne(1) d
  have 1: "get_prop (config_defineCollection [(''fields'', Obj []), (''data'', Fun (Arr []))]) ''data''
     = Fun (Arr [])"
    and 2: "get_prop (config_defineCollection [(''fields'', Obj []), (''data'', Fun (Arr []))]) ''writable''
     = Bool False"
    by simp_all
  from inst ne(2) t
  have 3: "get_prop (objs (snd (defineCollection one_field_config preset_collection_heap)) 0) ''type''
     = Str ''text''"
    by simp
  from inst f(2) o
  have 4: "objs (snd (defineCollection one_field_config preset_collection_heap)) 1
     = [(''type'', Str ''text''), (''collection'', Str ''users'')]"
    by simp
  from inst m
  have 5: "metas (snd (defineCollection one_field_config preset_collection_heap)) (Suc 0) = None"
    by simp
  from ne 1 2 3 f 4 m(1) 5 show ?thesis by blast
qed

text \<open>
  C8. For every options object (one without a \<^verbatim>\<open>type\<close> property, which the parameter
  type of the constructors leaves out), each constructor of \<^verbatim>\<open>field\<close> in \<^verbatim>\<open>config.ts\<close>
  returns a field whose \<^verbatim>\<open>type\<close> is the name of the constructor; every property of the
  options has its value in the result, and a property the options do not have gets the
  default: \<^verbatim>\<open>optional\<close> and \<^verbatim>\<open>unique\<close> false, \<^verbatim>\<open>label\<close> and \<^verbatim>\<open>default\<close> undefined,
  and \<^verbatim>\<open>multiline\<close> false for a text field.
\<close>

theorem field_constructor_defaults:
  assumes "\<not> has opts ''type''"
  shows "\<forall>(tag, constructor) \<in> set config_field.
           get_prop (constructor opts) ''type'' = Str tag \<and>
           (\<forall>k. has opts k \<longrightarrow> get_prop (constructor opts) k = get_prop opts k) \<and>
           (\<not> has opts ''optional'' \<longrightarrow> get_prop (constructor opts) ''optional'' = Bool False) \<and>
           (\<not> has opts ''unique'' \<longrightarrow> get_prop (constructor opts) ''unique'' = Bool False) \<and>
           (\<not> has opts ''label'' \<longrightarrow> get_prop (constructor opts) ''label'' = Undefined) \<and>
           (\<not> has opts ''default'' \<longrightarrow> get_prop (constructor opts) ''default'' = Undefined) \<and>
           (tag = ''text'' \<and> \<not> has opts ''multiline'' \<longrightarrow>
              get_prop (constructor opts) ''multiline'' = Bool False)"
proof -
  have m: "\<not> has opts ''multiline'' \<longrightarrow> get_prop (field_text opts) ''multiline'' = Bool False"
    by (simp add: field_text_def field_ctor_prop has_baseDefaults get_prop_Cons)
  show ?thesis
    unfolding config_field_def
    using assms m
    by (simp add: field_number_def field_boolean_def field_text_def field_date_def field_json_def
        field_ctor_type field_ctor_defaults field_ctor_override)
qed

theorem field_constructor_defaults_witness:
  "\<not> has [(''unique'', Bool True)] ''type'' \<and> has [(''unique'', Bool True)] ''unique'' \<and>
   \<not> has [(''unique'', Bool True)] ''optional'' \<and> \<not> has [(''unique'', Bool True)] ''multiline'' \<and>
   get_prop (field_text [(''unique'', Bool True)]) ''type'' = Str ''text'' \<and>
   get_prop (field_text [(''unique'', Bool True)]) ''unique'' = Bool True \<and>
   get_prop (field_text [(''unique'', Bool True)]) ''optional'' = Bool False \<and>
   get_prop (field_text [(''unique'', Bool True)]) ''multiline'' = Bool False"
proof -
  have h: "\<not> has [(''unique'', Bool True)] ''type''" "has [(''unique'', Bool True)] ''unique''"
    "\<not> has [(''unique'', Bool True)] ''optional''" "\<not> has [(''unique'', Bool True)] ''multiline''"
    by (simp_all add: has_def)
  have t: "(''text'', field_text) \<in> set config_field"
    by (simp add: config_field_def)
  have g: "get_prop [(''unique'', Bool True)] ''unique'' = Bool True"
    by (simp add: get_prop_def)
  from field_constructor_defaults [OF h(1)] t
  have "get_prop (field_text [(''unique'', Bool True)]) ''type'' = Str ''text'' \<and>
        (\<forall>k. has [(''unique'', Bool True)] k \<longrightarrow>
           get_prop (field_text [(''unique'', Bool True)]) k = get_prop [(''unique'', Bool True)] k) \<and>
        (\<not> has [(''unique'', Bool True)] ''optional'' \<longrightarrow>
           get_prop (field_text [(''unique'', Bool True)]) ''optional'' = Bool False) \<and>
        (\<not> has [(''unique'', Bool True)] ''multiline'' \<longrightarrow>
           get_prop (field_text [(''unique'', Bool True)]) ''multiline'' = Bool False)"
    by fastforce
  with h g show ?thesis by simp
qed

section \<open>Validation of fields\<close>

text \<open>
  C3. The field schema accepts a value only if it is an object whose \<^verbatim>\<open>type\<close> is one of
  the five literals boolean, number, text, date, json; every other value, in particular a
  field definition with any other tag, is rejected with the schema-violation error of the
  union; and each of the five tags is accepted (on the field that has nothing but the tag).
\<close>

theorem fieldSchema_type_tags:
  "(fieldSchema newDate isoString v = Inr out \<longrightarrow>
      (\<exists>data. v = Obj data \<and> get_prop data ''type'' \<in> Str ` set FieldType)) \<and>
   ((\<forall>data. v = Obj data \<longrightarrow> get_prop data ''type'' \<notin> Str ` set FieldType) \<longrightarrow>
      fieldSchema newDate isoString v = Inl (ZodError invalid_union)) \<and>
   (\<forall>t\<in>set FieldType. \<exists>out'. fieldSchema newDate isoString (Obj [(''type'', Str t)]) = Inr out')"
proof (intro conjI impI ballI)
  assume "fieldSchema newDate isoString v = Inr out"
  then show "\<exists>data. v = Obj data \<and> get_prop data ''type'' \<in> Str ` set FieldType"
    by (rule fieldSchema_Inr_type)
next
  assume no: "\<forall>data. v = Obj data \<longrightarrow> get_prop data ''type'' \<notin> Str ` set FieldType"
  show "fieldSchema newDate isoString v = Inl (ZodError invalid_union)"
  proof (cases "fieldSchema newDate isoString v")
    case (Inl e)
    then show ?thesis by (simp add: fieldSchema_Inl)
  next
    case (Inr out')
    from fieldSchema_Inr_type [OF this] no show ?thesis by blast
  qed
next
  fix t assume "t \<in> set FieldType"
  then show "\<exists>out'. fieldSchema newDate isoString (Obj [(''type'', Str t)]) = Inr out'"
    by (rule bare_field_accepted)
qed

theorem fieldSchema_type_tags_witness:
  "fieldSchema epoch_only epoch_iso (Obj [(''type'', Str ''json'')]) = Inr (Obj [(''type'', Str ''json'')]) \<and>
   get_prop [(''type'', Str ''json'')] ''type'' \<in> Str ` set FieldType \<and>
   get_prop [(''type'', Str ''blob'')] ''type'' \<notin> Str ` set FieldType \<and>
   fieldSchema epoch_only epoch_iso (Obj [(''type'', Str ''blob'')]) = Inl (ZodError invalid_union) \<and>
   ''date'' \<in> set FieldType \<and>
   (\<exists>out. fieldSchema epoch_only epoch_iso (Obj [(''type'', Str ''date'')]) = Inr out)"
proof -
  have j: "fieldSchema epoch_only epoch_iso (Obj [(''type'', Str ''json'')]) =
        Inr (Obj [(''type'', Str ''json'')])"
    by (simp add: fieldSchema_def z_object_def booleanFieldSchema_shape numberFieldSchema_shape
        textFieldSchema_shape dateFieldSchema_shape jsonFieldSchema_shape baseFieldSchema_def
        z_optional_def z_literal_def get_prop_Cons get_prop_Nil has_Cons has_Nil)
  have b: "\<forall>data. Obj [(''type'', Str ''blob'')] = Obj data \<longrightarrow>
             get_prop data ''type'' \<notin> Str ` set FieldType"
    by (auto simp: FieldType_def get_prop_Cons)
  have d: "''date'' \<in> set FieldType"
    by (simp add: FieldType_def)
  from fieldSchema_type_tags
    [of epoch_only epoch_iso "Obj [(''type'', Str ''json'')]" "Obj [(''type'', Str ''json'')]"] j
  have 1: "get_prop [(''type'', Str ''json'')] ''type'' \<in> Str ` set FieldType"
    by auto
  from fieldSchema_type_tags
    [of epoch_only epoch_iso "Obj [(''type'', Str ''blob'')]" Undefined] b d
  have 2: "fieldSchema epoch_only epoch_iso (Obj [(''type'', Str ''blob'')]) =
             Inl (ZodError invalid_union)"
    and 3: "\<exists>out. fieldSchema epoch_only epoch_iso (Obj [(''type'', Str ''date'')]) = Inr out"
    by blast+
  from j 1 b 2 d 3 show ?thesis by blast
qed

text \<open>
  C9. Parsing a date field transforms its default. The string \<^verbatim>\<open>now\<close> is kept as it is;
  any other default is replaced by the ISO string of the date it coerces to, and the field
  is rejected when it coerces to no date. A date field is accepted exactly when the base
  schema accepts it, its \<^verbatim>\<open>type\<close> is \<^verbatim>\<open>date\<close>, and its default is absent, \<^verbatim>\<open>now\<close> or
  coercible to a date.
\<close>

theorem dateFieldSchema_default:
  "(z_object (dateFieldSchema newDate isoString) (Obj data) = Inr (Obj out) \<longrightarrow>
      (get_prop data ''default'' = Str ''now'' \<longrightarrow> get_prop out ''default'' = Str ''now'') \<and>
      (get_prop data ''default'' \<noteq> Str ''now'' \<and> get_prop data ''default'' \<noteq> Undefined \<longrightarrow>
         (\<exists>t. newDate (get_prop data ''default'') = Some t \<and>
              get_prop out ''default'' = Str (isoString t)))) \<and>
   (get_prop data ''default'' \<noteq> Str ''now'' \<and> get_prop data ''default'' \<noteq> Undefined \<and>
    newDate (get_prop data ''default'') = None \<longrightarrow>
      (\<exists>e. z_object (dateFieldSchema newDate isoString) (Obj data) = Inl e)) \<and>
   ((\<exists>out'. z_object (dateFieldSchema newDate isoString) (Obj data) = Inr out') \<longleftrightarrow>
      (\<exists>out'. z_object baseFieldSchema (Obj data) = Inr out') \<and>
      get_prop data ''type'' = Str ''date'' \<and>
      (get_prop data ''default'' = Undefined \<or> get_prop data ''default'' = Str ''now'' \<or>
       newDate (get_prop data ''default'') \<noteq> None))"
proof (intro conjI impI)
  assume a: "z_object (dateFieldSchema newDate isoString) (Obj data) = Inr (Obj out)"
  assume "get_prop data ''default'' = Str ''now''"
  with dateFieldSchema_out_default [OF a] show "get_prop out ''default'' = Str ''now''"
    by (simp add: date_default)
next
  assume a: "z_object (dateFieldSchema newDate isoString) (Obj data) = Inr (Obj out)"
  assume "get_prop data ''default'' \<noteq> Str ''now'' \<and> get_prop data ''default'' \<noteq> Undefined"
  with dateFieldSchema_out_default [OF a]
  show "\<exists>t. newDate (get_prop data ''default'') = Some t \<and>
            get_prop out ''default'' = Str (isoString t)"
    by (auto simp: date_default split: option.splits)
next
  assume n: "get_prop data ''default'' \<noteq> Str ''now'' \<and> get_prop data ''default'' \<noteq> Undefined \<and>
    newDate (get_prop data ''default'') = None"
  then have "\<not> (\<exists>out'. z_object (dateFieldSchema newDate isoString) (Obj data) = Inr out')"
    unfolding dateFieldSchema_accepts by simp
  then show "\<exists>e. z_object (dateFieldSchema newDate isoString) (Obj data) = Inl e"
    by (cases "z_object (dateFieldSchema newDate isoString) (Obj data)") auto
next
  show "(\<exists>out'. z_object (dateFieldSchema newDate isoString) (Obj data) = Inr out') \<longleftrightarrow>
      (\<exists>out'. z_object baseFieldSchema (Obj data) = Inr out') \<and>
      get_prop data ''type'' = Str ''date'' \<and>
      (get_prop data ''default'' = Undefined \<or> get_prop data ''default'' = Str ''now'' \<or>
       newDate (get_prop data ''default'') \<noteq> None)"
    by (rule dateFieldSchema_accepts)
qed

theorem dateFieldSchema_default_witness:
  "z_object (dateFieldSchema epoch_only epoch_iso)
     (Obj [(''type'', Str ''date''), (''default'', Str ''now'')]) =
     Inr (Obj [(''type'', Str ''date''), (''default'', Str ''now'')]) \<and>
   get_prop [(''type'', Str ''date''), (''default'', Str ''now'')] ''default'' = Str ''now'' \<and>
   z_object (dateFieldSchema epoch_only epoch_iso)
     (Obj [(''type'', Str ''date''), (''default'', Num (Finite 0))]) =
     Inr (Obj [(''type'', Str ''date''), (''default'', Str ''1970-01-01T00:00:00.000Z'')]) \<and>
   (\<exists>t. epoch_only (Num (Finite 0)) = Some t \<and>
        get_prop [(''type'', Str ''date''), (''default'', Str ''1970-01-01T00:00:00.000Z'')]
          ''default'' = Str (epoch_iso t)) \<and>
   epoch_only (Str ''soon'') = None \<and>
   (\<exists>e. z_object (dateFieldSchema epoch_only epoch_iso)
      (Obj [(''type'', Str ''date''), (''default'', Str ''soon'')]) = Inl e)"
proof -
  have now: "get_prop [(''type'', Str ''date''), (''default'', Str ''now'')] ''default'' = Str ''now''"
    by (simp add: get_prop_Cons)
  have epoch:
    "get_prop [(''type'', Str ''date''), (''default'', Num (Finite 0))] ''default'' \<noteq> Str ''now'' \<and>
     get_prop [(''type'', Str ''date''), (''default'', Num (Finite 0))] ''default'' \<noteq> Undefined"
    "get_prop [(''type'', Str ''date''), (''default'', Num (Finite 0))] ''default'' = Num (Finite 0)"
    by (simp_all add: get_prop_Cons)
  have soon:
    "get_prop [(''type'', Str ''date''), (''default'', Str ''soon'')] ''default'' \<noteq> Str ''now'' \<and>
     get_prop [(''type'', Str ''date''), (''default'', Str ''soon'')] ''default'' \<noteq> Undefined \<and>
     epoch_only (get_prop [(''type'', Str ''date''), (''default'', Str ''soon'')] ''default'') = None"
    by (simp add: get_prop_Cons epoch_only_def)
  have none: "epoch_only (Str ''soon'') = None"
    by (simp add: epoch_only_def)
  from dateFieldSchema_default
    [of epoch_only epoch_iso "[(''type'', Str ''date''), (''default'', Str ''now'')]"
        "[(''type'', Str ''date''), (''default'', Str ''now'')]"] eval_date_now now
  have 1: "get_prop [(''type'', Str ''date''), (''default'', Str ''now'')] ''default'' = Str ''now''"
    by blast
  from dateFieldSchema_default
    [of epoch_only epoch_iso "[(''type'', Str ''date''), (''default'', Num (Finite 0))]"
        "[(''type'', Str ''date''), (''default'', Str ''1970-01-01T00:00:00.000Z'')]"]
    eval_date_epoch epoch
  have 2: "\<exists>t. epoch_only (Num (Finite 0)) = Some t \<and>
        get_prop [(''type'', Str ''date''), (''default'', Str ''1970-01-01T00:00:00.000Z'')]
          ''default'' = Str (epoch_iso t)"
    by simp
  from dateFieldSchema_default
    [of epoch_only epoch_iso "[(''type'', Str ''date''), (''default'', Str ''soon'')]" "[]"] soon
  have 3: "\<exists>e. z_object (dateFieldSchema epoch_only epoch_iso)
      (Obj [(''type'', Str ''date''), (''default'', Str ''soon'')]) = Inl e"
    by blast
  from eval_date_now 1 eval_date_epoch 2 none 3 show ?thesis by blast
qed

text \<open>
  C4. Only number and text fields carry a reference to another field. The referenceable
  fields are exactly the text fields and the number fields: the schema accepts a value,
  with an output, exactly when the text schema or the number schema does, with that
  output. The schemas of boolean, date and json fields have no \<^verbatim>\<open>references\<close> key, and no
  field they yield has that property. The \<^verbatim>\<open>references\<close> of a number or text field is
  absent or a function; the field that is yielded holds the function wrapped, and whatever
  a call of the wrapper returns is what the referenceable schema yields on the result of
  the function: a text or a number field.
\<close>

theorem referenceable_fields:
  "(referenceableFieldSchema v = Inr out \<longleftrightarrow>
      z_object textFieldSchema v = Inr out \<or> z_object numberFieldSchema v = Inr out) \<and>
   (\<forall>shape\<in>set [booleanFieldSchema, dateFieldSchema newDate isoString, jsonFieldSchema].
      ''references'' \<notin> fst ` set shape \<and>
      (\<forall>fld. z_object shape v = Inr (Obj fld) \<longrightarrow> \<not> has fld ''references'')) \<and>
   (\<forall>shape\<in>set [numberFieldSchema, textFieldSchema]. \<forall>data fld.
      z_object shape (Obj data) = Inr (Obj fld) \<longrightarrow>
        (get_prop data ''references'' = Undefined \<and> get_prop fld ''references'' = Undefined) \<or>
        (is_function (get_prop data ''references'') \<and>
         get_prop fld ''references'' = Wrapped ReturnsReferenceable (get_prop data ''references'') \<and>
         (\<forall>r. call (get_prop fld ''references'') = Inr r \<longrightarrow>
            (\<exists>x. call (get_prop data ''references'') = Inr x \<and>
                 referenceableFieldSchema x = Inr r) \<and>
            (\<exists>d. r = Obj d \<and>
                 (get_prop d ''type'' = Str ''text'' \<or> get_prop d ''type'' = Str ''number'')))))"
proof (intro conjI)
  show "referenceableFieldSchema v = Inr out \<longleftrightarrow>
      z_object textFieldSchema v = Inr out \<or> z_object numberFieldSchema v = Inr out"
    by (rule referenceableFieldSchema_Inr)
next
  show "\<forall>shape\<in>set [booleanFieldSchema, dateFieldSchema newDate isoString, jsonFieldSchema].
      ''references'' \<notin> fst ` set shape \<and>
      (\<forall>fld. z_object shape v = Inr (Obj fld) \<longrightarrow> \<not> has fld ''references'')"
    by (auto simp: no_references_key dest: no_references_out)
next
  have n: "(''references'', z_optional (z_function ReturnsReferenceable)) \<in> set numberFieldSchema"
    by (simp add: numberFieldSchema_shape)
  have t: "(''references'', z_optional (z_function ReturnsReferenceable)) \<in> set textFieldSchema"
    by (simp add: textFieldSchema_shape)
  have one: "(get_prop data ''references'' = Undefined \<and> get_prop fld ''references'' = Undefined) \<or>
        (is_function (get_prop data ''references'') \<and>
         get_prop fld ''references'' = Wrapped ReturnsReferenceable (get_prop data ''references'') \<and>
         (\<forall>r. call (get_prop fld ''references'') = Inr r \<longrightarrow>
            (\<exists>x. call (get_prop data ''references'') = Inr x \<and>
                 referenceableFieldSchema x = Inr r) \<and>
            (\<exists>d. r = Obj d \<and>
                 (get_prop d ''type'' = Str ''text'' \<or> get_prop d ''type'' = Str ''number''))))"
    if "z_object shape (Obj data) = Inr (Obj fld)" and "distinct (map fst shape)"
      and "(''references'', z_optional (z_function ReturnsReferenceable)) \<in> set shape"
    for shape data fld
    using references_of_parsed [OF that] call_checked_references [of "get_prop data ''references''"]
    by auto
  show "\<forall>shape\<in>set [numberFieldSchema, textFieldSchema]. \<forall>data fld.
      z_object shape (Obj data) = Inr (Obj fld) \<longrightarrow>
        (get_prop data ''references'' = Undefined \<and> get_prop fld ''references'' = Undefined) \<or>
        (is_function (get_prop data ''references'') \<and>
         get_prop fld ''references'' = Wrapped ReturnsReferenceable (get_prop data ''references'') \<and>
         (\<forall>r. call (get_prop fld ''references'') = Inr r \<longrightarrow>
            (\<exists>x. call (get_prop data ''references'') = Inr x \<and>
                 referenceableFieldSchema x = Inr r) \<and>
            (\<exists>d. r = Obj d \<and>
                 (get_prop d ''type'' = Str ''text'' \<or> get_prop d ''type'' = Str ''number''))))"
    using one [OF _ distinct_numberFieldSchema n] one [OF _ distinct_textFieldSchema t]
    by simp
qed

theorem referenceable_fields_witness:
  "referenceableFieldSchema (Obj text_referencing_number) =
     Inr (Obj [(''type'', Str ''text''),
               (''references'',
                Wrapped ReturnsReferenceable (Fun (Obj [(''type'', Str ''number'')])))]) \<and>
   is_function (get_prop text_referencing_number ''references'') \<and>
   call (Wrapped ReturnsReferenceable (Fun (Obj [(''type'', Str ''number'')]))) =
     Inr (Obj [(''type'', Str ''number'')]) \<and>
   referenceableFieldSchema (Obj [(''type'', Str ''number'')]) =
     Inr (Obj [(''type'', Str ''number'')]) \<and>
   z_object booleanFieldSchema (Obj boolean_with_references) = Inr (Obj [(''type'', Str ''boolean'')]) \<and>
   \<not> has [(''type'', Str ''boolean'')] ''references''"
proof -
  let ?out = "Obj [(''type'', Str ''text''),
               (''references'',
                Wrapped ReturnsReferenceable (Fun (Obj [(''type'', Str ''number'')])))]"
  let ?fld = "[(''type'', Str ''text''),
               (''references'',
                Wrapped ReturnsReferenceable (Fun (Obj [(''type'', Str ''number'')])))]"
  note t = referenceable_fields
    [of "Obj text_referencing_number" ?out epoch_only epoch_iso]
  from t eval_text_referencing_number
  have 1: "referenceableFieldSchema (Obj text_referencing_number) = Inr ?out"
    by blast
  have g: "get_prop ?fld ''references'' =
             Wrapped ReturnsReferenceable (Fun (Obj [(''type'', Str ''number'')]))"
    "get_prop text_referencing_number ''references'' = Fun (Obj [(''type'', Str ''number'')])"
    by (simp_all add: get_prop_Cons text_referencing_number_def)
  have m: "textFieldSchema \<in> set [numberFieldSchema, textFieldSchema]" by simp
  from t m eval_text_referencing_number
  have "(get_prop text_referencing_number ''references'' = Undefined \<and>
           get_prop ?fld ''references'' = Undefined) \<or>
        (is_function (get_prop text_referencing_number ''references'') \<and>
         get_prop ?fld ''references'' =
           Wrapped ReturnsReferenceable (get_prop text_referencing_number ''references'') \<and>
         (\<forall>r. call (get_prop ?fld ''references'') = Inr r \<longrightarrow>
            (\<exists>x. call (get_prop text_referencing_number ''references'') = Inr x \<and>
                 referenceableFieldSchema x = Inr r) \<and>
            (\<exists>d. r = Obj d \<and>
                 (get_prop d ''type'' = Str ''text'' \<or> get_prop d ''type'' = Str ''number''))))"
    by blast
  with g eval_call_references
  have 2: "is_function (get_prop text_referencing_number ''references'')"
    and 3: "referenceableFieldSchema (Obj [(''type'', Str ''number'')]) =
              Inr (Obj [(''type'', Str ''number'')])"
    by auto
  have b: "booleanFieldSchema \<in>
             set [booleanFieldSchema, dateFieldSchema epoch_only epoch_iso, jsonFieldSchema]"
    by simp
  from referenceable_fields
    [of "Obj boolean_with_references" Undefined epoch_only epoch_iso] b
    eval_boolean_with_references
  have 4: "\<not> has [(''type'', Str ''boolean'')] ''references''"
    by blast
  from 1 2 3 4 eval_call_references eval_boolean_with_references show ?thesis by blast
qed

section \<open>Validation of collections and of the configuration\<close>

text \<open>
  C7. The collection schema accepts a value only if it is an object with a \<^verbatim>\<open>fields\<close>
  record and a \<^verbatim>\<open>writable\<close> that is the boolean true or false; a collection without
  \<^verbatim>\<open>fields\<close> (or without \<^verbatim>\<open>writable\<close>) is rejected. \<^verbatim>\<open>indexes\<close> and \<^verbatim>\<open>foreignKeys\<close>
  may be omitted: for a collection that lacks one of them, acceptance depends on the other
  properties only, and the collection that has nothing but an empty \<^verbatim>\<open>fields\<close> record
  and a \<^verbatim>\<open>writable\<close> tag is accepted.
\<close>

theorem collectionSchema_required:
  "(collectionSchema newDate isoString v = Inr out \<longrightarrow>
      (\<exists>data fs b. v = Obj data \<and> get_prop data ''fields'' = Obj fs \<and>
                   get_prop data ''writable'' = Bool b)) \<and>
   (\<not> has data ''fields'' \<or> \<not> has data ''writable'' \<longrightarrow>
      collectionSchema newDate isoString (Obj data) = Inl (ZodError invalid_union)) \<and>
   (\<not> has data ''indexes'' \<or> \<not> has data ''foreignKeys'' \<longrightarrow>
      ((\<exists>out'. collectionSchema newDate isoString (Obj data) = Inr out') \<longleftrightarrow>
       (\<exists>y. fieldsSchema newDate isoString (get_prop data ''fields'') = Inr y) \<and>
       (has data ''indexes'' \<longrightarrow> get_prop data ''indexes'' = Undefined \<or>
          (\<exists>y. z_record (z_object indexSchema) (get_prop data ''indexes'') = Inr y)) \<and>
       (has data ''foreignKeys'' \<longrightarrow> get_prop data ''foreignKeys'' = Undefined \<or>
          (\<exists>y. z_array (z_object foreignKeysSchema) (get_prop data ''foreignKeys'') = Inr y)) \<and>
       (get_prop data ''_setMeta'' = Undefined \<or> is_function (get_prop data ''_setMeta'')) \<and>
       (\<exists>b. get_prop data ''writable'' = Bool b))) \<and>
   (\<exists>out'. collectionSchema newDate isoString
             (Obj [(''fields'', Obj []), (''writable'', Bool w)]) = Inr out')"
proof (intro conjI impI)
  assume "collectionSchema newDate isoString v = Inr out"
  then have "\<exists>out. collectionSchema newDate isoString v = Inr out" by blast
  then show "\<exists>data fs b. v = Obj data \<and> get_prop data ''fields'' = Obj fs \<and>
                   get_prop data ''writable'' = Bool b"
    unfolding collectionSchema_accepts fieldsSchema_def by (blast dest: z_record_Inr_obj)
next
  assume "\<not> has data ''fields'' \<or> \<not> has data ''writable''"
  then have "get_prop data ''fields'' = Undefined \<or> get_prop data ''writable'' = Undefined"
    by (auto dest: get_prop_absent)
  then have "\<not> (\<exists>out. collectionSchema newDate isoString (Obj data) = Inr out)"
    unfolding collectionSchema_accepts fieldsSchema_def by (auto dest: z_record_Inr_obj)
  then show "collectionSchema newDate isoString (Obj data) = Inl (ZodError invalid_union)"
    by (rule collectionSchema_rejects)
next
  assume "\<not> has data ''indexes'' \<or> \<not> has data ''foreignKeys''"
  have i: "\<not> has data ''indexes'' \<Longrightarrow> get_prop data ''indexes'' = Undefined"
    and f: "\<not> has data ''foreignKeys'' \<Longrightarrow> get_prop data ''foreignKeys'' = Undefined"
    by (auto dest: get_prop_absent)
  show "(\<exists>out'. collectionSchema newDate isoString (Obj data) = Inr out') \<longleftrightarrow>
       (\<exists>y. fieldsSchema newDate isoString (get_prop data ''fields'') = Inr y) \<and>
       (has data ''indexes'' \<longrightarrow> get_prop data ''indexes'' = Undefined \<or>
          (\<exists>y. z_record (z_object indexSchema) (get_prop data ''indexes'') = Inr y)) \<and>
       (has data ''foreignKeys'' \<longrightarrow> get_prop data ''foreignKeys'' = Undefined \<or>
          (\<exists>y. z_array (z_object foreignKeysSchema) (get_prop data ''foreignKeys'') = Inr y)) \<and>
       (get_prop data ''_setMeta'' = Undefined \<or> is_function (get_prop data ''_setMeta'')) \<and>
       (\<exists>b. get_prop data ''writable'' = Bool b)"
    unfolding collectionSchema_accepts using i f by auto
next
  show "\<exists>out'. collectionSchema newDate isoString
             (Obj [(''fields'', Obj []), (''writable'', Bool w)]) = Inr out'"
    unfolding collectionSchema_accepts
    by (simp add: get_prop_Cons get_prop_Nil fieldsSchema_empty)
qed

theorem collectionSchema_required_witness:
  "collectionSchema epoch_only epoch_iso (Obj [(''fields'', Obj []), (''writable'', Bool True)]) =
     Inr (Obj [(''fields'', Obj []), (''writable'', Bool True)]) \<and>
   \<not> has [(''fields'', Obj []), (''writable'', Bool True)] ''indexes'' \<and>
   \<not> has [(''fields'', Obj []), (''writable'', Bool True)] ''foreignKeys'' \<and>
   (\<exists>fs b. get_prop [(''fields'', Obj []), (''writable'', Bool True)] ''fields'' = Obj fs \<and>
           get_prop [(''fields'', Obj []), (''writable'', Bool True)] ''writable'' = Bool b) \<and>
   (\<exists>y. fieldsSchema epoch_only epoch_iso
          (get_prop [(''fields'', Obj []), (''writable'', Bool True)] ''fields'') = Inr y) \<and>
   \<not> has [(''writable'', Bool True)] ''fields'' \<and>
   collectionSchema epoch_only epoch_iso (Obj [(''writable'', Bool True)]) =
     Inl (ZodError invalid_union)"
proof -
  let ?d = "[(''fields'', Obj []), (''writable'', Bool True)]"
  have h: "\<not> has ?d ''indexes''" "\<not> has ?d ''foreignKeys''"
    "\<not> has [(''writable'', Bool True)] ''fields''"
    by (simp_all add: has_Cons has_Nil)
  from collectionSchema_required [of epoch_only epoch_iso "Obj ?d" "Obj ?d" ?d True]
    eval_minimal_collection h(1)
  have 1: "\<exists>fs b. get_prop ?d ''fields'' = Obj fs \<and> get_prop ?d ''writable'' = Bool b"
    and 2: "\<exists>y. fieldsSchema epoch_only epoch_iso (get_prop ?d ''fields'') = Inr y"
    by blast+
  from collectionSchema_required
    [of epoch_only epoch_iso Undefined Undefined "[(''writable'', Bool True)]" True] h(3)
  have 3: "collectionSchema epoch_only epoch_iso (Obj [(''writable'', Bool True)]) =
     Inl (ZodError invalid_union)"
    by blast
  from eval_minimal_collection h 1 2 3 show ?thesis by blast
qed




end
